theory Spec2Isabelle
  imports Complex_Main "HOL-Library.Sublist"
begin

section \<open>Python values shared by both scripts\<close>

text \<open>
  The repository holds two scripts, \<^verbatim>\<open>floorplan_pipeline.py\<close> and
  \<^verbatim>\<open>nerfstudio_automate.py\<close>.  Both define \<^verbatim>\<open>train_and_export_floorplan\<close> and
  \<^verbatim>\<open>generate_floorplan_from_mesh\<close>; definitions taken from the first script carry the
  prefix \<open>fp_\<close>, those from the second the prefix \<open>ns_\<close>.

  A \<^verbatim>\<open>pathlib.Path\<close> is the list of its components; the empty list is the directory
  the relative paths start from.  Floating-point numbers (modification times, mesh
  coordinates) are modelled as real numbers.
\<close>

type_synonym path = "string list"

definition str_path :: "path \<Rightarrow> string" where
  "str_path p = (case p of [] \<Rightarrow> ''.'' | c # cs \<Rightarrow> foldl (\<lambda>s d. s @ ''/'' @ d) c cs)"

text \<open>
  An instance of Python's \<^verbatim>\<open>Exception\<close>: class name and message (\<^verbatim>\<open>str(e)\<close>).
  These are the exceptions that library calls raise and that \<^verbatim>\<open>except Exception\<close>
  catches; \<^verbatim>\<open>KeyboardInterrupt\<close> and \<^verbatim>\<open>SystemExit\<close> are not modelled, and
  \<^verbatim>\<open>print\<close> is taken never to fail.
\<close>

datatype exn = Exn (exn_class: string) (exn_msg: string)

type_synonym vec2 = "real \<times> real"
type_synonym vec3 = "real \<times> real \<times> real"

text \<open>A PIL image, kept symbolically: its mode, size and background colour, and the
  \<^verbatim>\<open>ImageDraw.line\<close> calls made on it, in order.\<close>

record stroke =
  stroke_points :: "vec2 list"
  stroke_fill :: string
  stroke_width :: nat

record image =
  im_mode :: string
  im_size :: "nat \<times> nat"
  im_color :: string
  im_lines :: "stroke list"

datatype blob = Text string | Picture image | Bytes string

section \<open>The file system\<close>

text \<open>
  Every entry has a modification time.  The order of \<open>entries\<close> is the order in which
  the operating system enumerates them (the order \<^verbatim>\<open>glob\<close> yields its matches in);
  \<open>clock\<close> is the time that newly written entries are stamped with.
\<close>

datatype node = Dir (mtime: real) | File (mtime: real) blob

record filesystem =
  entries :: "(path \<times> node) list"
  clock :: real

definition lookup :: "filesystem \<Rightarrow> path \<Rightarrow> node option" where
  "lookup fs p = map_of (entries fs) p"

definition path_exists :: "filesystem \<Rightarrow> path \<Rightarrow> bool" where
  "path_exists fs p = (p = [] \<or> lookup fs p \<noteq> None)"

definition is_dir :: "filesystem \<Rightarrow> path \<Rightarrow> bool" where
  "is_dir fs p = (p = [] \<or> (case lookup fs p of Some (Dir _) \<Rightarrow> True | _ \<Rightarrow> False))"

definition is_file :: "filesystem \<Rightarrow> path \<Rightarrow> bool" where
  "is_file fs p = (p \<noteq> [] \<and> (case lookup fs p of Some (File _ _) \<Rightarrow> True | _ \<Rightarrow> False))"

text \<open>\<^verbatim>\<open>os.mkdir\<close>: one directory, whose parent must be a directory.\<close>

definition os_mkdir :: "path \<Rightarrow> filesystem \<Rightarrow> exn + filesystem" where
  "os_mkdir p fs =
     (if path_exists fs p then Inl (Exn ''FileExistsError'' (str_path p))
      else if \<not> path_exists fs (butlast p) then Inl (Exn ''FileNotFoundError'' (str_path p))
      else if \<not> is_dir fs (butlast p) then Inl (Exn ''NotADirectoryError'' (str_path p))
      else Inr (fs\<lparr>entries := entries fs @ [(p, Dir (clock fs))]\<rparr>))"

text \<open>
  \<^verbatim>\<open>Path.mkdir(parents=True, exist_ok=True)\<close>, as pathlib does it: try \<^verbatim>\<open>os.mkdir\<close>;
  on \<^verbatim>\<open>FileNotFoundError\<close> make the parent the same way and then the directory itself;
  any other \<^verbatim>\<open>OSError\<close> is swallowed exactly when the path is a directory already.
\<close>

function mkdir_parents :: "path \<Rightarrow> filesystem \<Rightarrow> exn + filesystem" where
  "mkdir_parents p fs =
     (case os_mkdir p fs of
        Inr fs' \<Rightarrow> Inr fs'
      | Inl e \<Rightarrow>
          if exn_class e = ''FileNotFoundError'' then
            (if p = [] then Inl e
             else case mkdir_parents (butlast p) fs of
                    Inl e' \<Rightarrow> Inl e'
                  | Inr fs' \<Rightarrow>
                      (case os_mkdir p fs' of
                         Inr fs'' \<Rightarrow> Inr fs''
                       | Inl e' \<Rightarrow> if is_dir fs' p then Inr fs' else Inl e'))
          else if is_dir fs p then Inr fs
          else Inl e)"
  by pat_completeness auto
termination
  by (relation "measure (\<lambda>(p, fs). length p)") auto

text \<open>Writing a file (what \<^verbatim>\<open>open(path, 'wb')\<close> followed by a write does).\<close>

definition write_file :: "path \<Rightarrow> blob \<Rightarrow> filesystem \<Rightarrow> exn + filesystem" where
  "write_file p b fs =
     (if is_dir fs p then Inl (Exn ''IsADirectoryError'' (str_path p))
      else if \<not> path_exists fs (butlast p) then Inl (Exn ''FileNotFoundError'' (str_path p))
      else if \<not> is_dir fs (butlast p) then Inl (Exn ''NotADirectoryError'' (str_path p))
      else if path_exists fs p
        then Inr (fs\<lparr>entries := map (\<lambda>(q, n). if q = p then (q, File (clock fs) b) else (q, n)) (entries fs)\<rparr>)
        else Inr (fs\<lparr>entries := entries fs @ [(p, File (clock fs) b)]\<rparr>))"

text \<open>
  \<^verbatim>\<open>output_dir.glob("**/config.yml")\<close>: every entry below the directory, at any depth,
  whose last component is \<open>name\<close>.  \<^verbatim>\<open>export_dir.glob("*.ply")\<close>: every entry directly
  in the directory whose name ends in \<open>ext\<close>.
\<close>

definition is_below :: "path \<Rightarrow> path \<Rightarrow> bool" where
  "is_below d q = strict_prefix d q"

definition glob_rec :: "filesystem \<Rightarrow> path \<Rightarrow> string \<Rightarrow> path list" where
  "glob_rec fs d name = filter (\<lambda>q. is_below d q \<and> last q = name) (map fst (entries fs))"

definition glob_suffix :: "filesystem \<Rightarrow> path \<Rightarrow> string \<Rightarrow> path list" where
  "glob_suffix fs d ext =
     filter (\<lambda>q. q \<noteq> [] \<and> butlast q = d \<and> suffix ext (last q)) (map fst (entries fs))"

text \<open>\<^verbatim>\<open>x.stat().st_mtime\<close>.\<close>

definition st_mtime :: "filesystem \<Rightarrow> path \<Rightarrow> exn + real" where
  "st_mtime fs p =
     (case lookup fs p of
        None \<Rightarrow> Inl (Exn ''FileNotFoundError'' (str_path p))
      | Some n \<Rightarrow> Inr (mtime n))"

section \<open>Selecting the newest artifact\<close>

text \<open>
  Both scripts select the configuration file and the mesh file with
  \<^verbatim>\<open>sorted(files, key=lambda x: x.stat().st_mtime)[-1]\<close>.
  \<^verbatim>\<open>sorted\<close> computes the key of every element first (an exception of a key call
  propagates), then sorts stably by the keys; \<^verbatim>\<open>[-1]\<close> raises on the empty list.
\<close>

fun map_exn :: "('a \<Rightarrow> exn + 'b) \<Rightarrow> 'a list \<Rightarrow> exn + 'b list" where
  "map_exn f [] = Inr []"
| "map_exn f (x # xs) =
     (case f x of
        Inl e \<Rightarrow> Inl e
      | Inr y \<Rightarrow> (case map_exn f xs of Inl e \<Rightarrow> Inl e | Inr ys \<Rightarrow> Inr (y # ys)))"

definition sorted_by_mtime :: "filesystem \<Rightarrow> path list \<Rightarrow> exn + path list" where
  "sorted_by_mtime fs files =
     (case map_exn (st_mtime fs) files of
        Inl e \<Rightarrow> Inl e
      | Inr keys \<Rightarrow> Inr (map snd (sort_key fst (zip keys files))))"

definition newest :: "filesystem \<Rightarrow> path list \<Rightarrow> exn + path" where
  "newest fs files =
     (case sorted_by_mtime fs files of
        Inl e \<Rightarrow> Inl e
      | Inr [] \<Rightarrow> Inl (Exn ''IndexError'' ''list index out of range'')
      | Inr (x # xs) \<Rightarrow> Inr (last (x # xs)))"

section \<open>External collaborators\<close>

text \<open>
  The mesh library's objects, reduced to what the scripts read from them.
  \<^verbatim>\<open>mesh.bounds\<close> is \<^verbatim>\<open>None\<close> for a mesh without geometry; \<^verbatim>\<open>mesh.section\<close> returns
  \<^verbatim>\<open>None\<close> when the plane does not intersect the mesh; every call may raise.
  \<open>entities\<close> holds \<^verbatim>\<open>entity.points\<close> of each entity: indices into \<open>vertices\<close>.
\<close>

record path2d =
  vertices :: "vec2 list"
  entities :: "nat list list"
  to_svg :: "exn + string"

record path3d =
  to_planar :: "exn + path2d"

record mesh =
  mesh_vertex_count :: nat
  mesh_bounds :: "(vec3 \<times> vec3) option"
  mesh_section :: "vec3 \<Rightarrow> vec3 \<Rightarrow> exn + path3d option"

text \<open>
  What the scripts do not decide themselves: the external commands (return code and
  effect on the file system, or the exception of \<^verbatim>\<open>subprocess.run\<close> when the executable
  is missing), the mesh loader, whether PIL can be imported, the text Python prints for a
  float and for the bounds array, and \<open>np_degenerate\<close>: the outcome of NumPy's array
  division when some axis has zero extent (a division by zero, which NumPy answers with
  non-finite entries or an exception according to its floating-point error state; the
  real numbers of this model do not decide it).
\<close>

record env =
  run_process :: "string list \<Rightarrow> filesystem \<Rightarrow> exn + (int \<times> filesystem)"
  trimesh_load :: "filesystem \<Rightarrow> path \<Rightarrow> exn + mesh"
  pil_import :: "exn option"
  np_degenerate :: "vec2 list \<Rightarrow> exn + vec2 list"
  repr_float :: "real \<Rightarrow> string"
  repr_bounds :: "(vec3 \<times> vec3) option \<Rightarrow> string"

section \<open>The state a script runs in\<close>

datatype event =
    Subprocess "string list"
  | MeshLoad path
  | MeshSection vec3 vec3
  | ToPlanar
  | SvgExport path
  | PngSave path

text \<open>
  \<open>calls\<close> lists the subprocesses started and the library calls made, in order;
  \<open>out\<close> holds one string per \<^verbatim>\<open>print\<close> call; \<open>tracebacks\<close> what
  \<^verbatim>\<open>traceback.print_exc()\<close> wrote to standard error.
\<close>

record world =
  fsys :: filesystem
  calls :: "event list"
  out :: "string list"
  tracebacks :: "exn list"

definition say :: "string \<Rightarrow> world \<Rightarrow> world" where
  "say s w = w\<lparr>out := out w @ [s]\<rparr>"

definition record_call :: "event \<Rightarrow> world \<Rightarrow> world" where
  "record_call ev w = w\<lparr>calls := calls w @ [ev]\<rparr>"

definition print_exc :: "exn \<Rightarrow> world \<Rightarrow> world" where
  "print_exc e w = w\<lparr>tracebacks := tracebacks w @ [e]\<rparr>"

text \<open>The non-ASCII characters of the messages, as their UTF-8 bytes.\<close>

definition cross_mark :: string where
  "cross_mark = [CHR 0xE2, CHR 0x9D, CHR 0x8C]"

definition check_mark :: string where
  "check_mark = [CHR 0xE2, CHR 0x9C, CHR 0x93]"

definition warning_sign :: string where
  "warning_sign = [CHR 0xE2, CHR 0x9A, CHR 0xA0]"

definition party_popper :: string where
  "party_popper = [CHR 0xF0, CHR 0x9F, CHR 0x8E, CHR 0x89]"

definition banner :: string where
  "banner = replicate 60 (CHR ''='')"

definition nl :: string where
  "nl = [CHR 0x0A]"

function str_nat :: "nat \<Rightarrow> string" where
  "str_nat n = (if n < 10 then [''0123456789'' ! n] else str_nat (n div 10) @ [''0123456789'' ! (n mod 10)])"
  by pat_completeness auto
termination
  by (relation "measure id") auto

definition str_int :: "int \<Rightarrow> string" where
  "str_int i = (if i < 0 then ''-'' @ str_nat (nat (- i)) else str_nat (nat i))"

text \<open>\<^verbatim>\<open>' '.join(cmd)\<close>.\<close>

definition join_words :: "string list \<Rightarrow> string" where
  "join_words ws = (case ws of [] \<Rightarrow> [] | c # cs \<Rightarrow> foldl (\<lambda>s d. s @ '' '' @ d) c cs)"

text \<open>\<^verbatim>\<open>subprocess.run(cmd)\<close>: the command is started, its effect on the file system
  and its return code come from the environment.\<close>

definition subprocess_run :: "env \<Rightarrow> string list \<Rightarrow> world \<Rightarrow> (exn + int) \<times> world" where
  "subprocess_run env cmd w =
     (let w1 = record_call (Subprocess cmd) w in
      case run_process env cmd (fsys w1) of
        Inl e \<Rightarrow> (Inl e, w1)
      | Inr (rc, fs') \<Rightarrow> (Inr rc, w1\<lparr>fsys := fs'\<rparr>))"

section \<open>The rasterizer\<close>

text \<open>\<^verbatim>\<open>Image.new(mode, size, color)\<close> and \<^verbatim>\<open>draw.line(points, fill=..., width=...)\<close>.\<close>

definition image_new :: "string \<Rightarrow> nat \<times> nat \<Rightarrow> string \<Rightarrow> image" where
  "image_new m sz c = \<lparr>im_mode = m, im_size = sz, im_color = c, im_lines = []\<rparr>"

definition draw_line :: "vec2 list \<Rightarrow> string \<Rightarrow> nat \<Rightarrow> image \<Rightarrow> image" where
  "draw_line points f wd img =
     img\<lparr>im_lines := im_lines img @ [\<lparr>stroke_points = points, stroke_fill = f, stroke_width = wd\<rparr>]\<rparr>"

text \<open>\<^verbatim>\<open>vertices.min(axis=0)\<close> and \<^verbatim>\<open>vertices.max(axis=0)\<close> of a non-empty array.\<close>

definition axis_min :: "vec2 list \<Rightarrow> vec2" where
  "axis_min vs = (Min (set (map fst vs)), Min (set (map snd vs)))"

definition axis_max :: "vec2 list \<Rightarrow> vec2" where
  "axis_max vs = (Max (set (map fst vs)), Max (set (map snd vs)))"

text \<open>
  \<^verbatim>\<open>(vertices - vertices.min(axis=0)) / (vertices.max(axis=0) - vertices.min(axis=0))\<close>
\<close>

definition normalize :: "env \<Rightarrow> vec2 list \<Rightarrow> exn + vec2 list" where
  "normalize env vs =
     (let lo = axis_min vs;
          ext = (fst (axis_max vs) - fst lo, snd (axis_max vs) - snd lo)
      in if fst ext = 0 \<or> snd ext = 0 then np_degenerate env vs
         else Inr (map (\<lambda>v. ((fst v - fst lo) / fst ext, (snd v - snd lo) / snd ext)) vs))"

text \<open>\<^verbatim>\<open>vertices * (img_size - 100) + 50\<close>\<close>

definition to_canvas :: "int \<Rightarrow> vec2 list \<Rightarrow> vec2 list" where
  "to_canvas img_size vs =
     map (\<lambda>v. (fst v * real_of_int (img_size - 100) + 50, snd v * real_of_int (img_size - 100) + 50)) vs"

text \<open>\<^verbatim>\<open>vertices[entity.points].tolist()\<close>: an index outside the array raises.\<close>

definition take_points :: "vec2 list \<Rightarrow> nat list \<Rightarrow> exn + vec2 list" where
  "take_points vs idx =
     (if list_all (\<lambda>i. i < length vs) idx then Inr (map (\<lambda>i. vs ! i) idx)
      else Inl (Exn ''IndexError'' ''index out of bounds''))"

text \<open>The loop over \<^verbatim>\<open>slice_2d.entities\<close>.\<close>

fun draw_entities :: "vec2 list \<Rightarrow> nat list list \<Rightarrow> image \<Rightarrow> exn + image" where
  "draw_entities vs [] img = Inr img"
| "draw_entities vs (entity # rest) img =
     (case take_points vs entity of
        Inl e \<Rightarrow> Inl e
      | Inr points \<Rightarrow>
          draw_entities vs rest
            (if length points > 1 then draw_line points ''black'' 5 img else img))"

text \<open>From \<^verbatim>\<open>img_size = 2000\<close> up to the end of the drawing loop (the same statements
  in both scripts).\<close>

definition draw_floorplan :: "env \<Rightarrow> path2d \<Rightarrow> exn + image" where
  "draw_floorplan env slice_2d =
     (let img_size = 2000;
          img = image_new ''RGB'' (nat img_size, nat img_size) ''white''
      in if length (vertices slice_2d) > 0 then
           (case normalize env (vertices slice_2d) of
              Inl e \<Rightarrow> Inl e
            | Inr vs \<Rightarrow> draw_entities (to_canvas img_size vs) (entities slice_2d) img)
         else Inr img)"

text \<open>\<^verbatim>\<open>slice_2d.export(str(svg_path))\<close> and \<^verbatim>\<open>img.save(str(png_path))\<close>.\<close>

definition export_svg :: "path2d \<Rightarrow> path \<Rightarrow> filesystem \<Rightarrow> exn + filesystem" where
  "export_svg slice_2d svg_path fs =
     (case to_svg slice_2d of
        Inl e \<Rightarrow> Inl e
      | Inr txt \<Rightarrow> write_file svg_path (Text txt) fs)"

definition img_save :: "image \<Rightarrow> path \<Rightarrow> filesystem \<Rightarrow> exn + filesystem" where
  "img_save img png_path fs = write_file png_path (Picture img) fs"

definition say_all :: "string list \<Rightarrow> world \<Rightarrow> world" where
  "say_all ls w = foldl (\<lambda>w' l. say l w') w ls"

section \<open>\<^verbatim>\<open>generate_floorplan_from_mesh\<close>\<close>

text \<open>
  The body of the \<^verbatim>\<open>try\<close> block of \<^verbatim>\<open>floorplan_pipeline.py\<close>: \<open>Inl\<close> is an
  exception raised in it, \<open>Inr\<close> the value of a \<^verbatim>\<open>return\<close> statement.
\<close>

definition fp_floorplan_body :: "env \<Rightarrow> path \<Rightarrow> path \<Rightarrow> world \<Rightarrow> (exn + bool) \<times> world" where
  "fp_floorplan_body env mesh_path output_dir w0 =
     (let w1 = record_call (MeshLoad mesh_path) (say (''Loading mesh: '' @ str_path mesh_path) w0) in
      case trimesh_load env (fsys w1) mesh_path of
        Inl e \<Rightarrow> (Inl e, w1)
      | Inr mesh \<Rightarrow>
      let w2 = say_all [''Mesh: '' @ str_nat (mesh_vertex_count mesh) @ '' vertices'',
                        ''Bounds: '' @ repr_bounds env (mesh_bounds mesh)] w1 in
      (case mesh_bounds mesh of
        None \<Rightarrow> (Inl (Exn ''TypeError'' ''NoneType object is not subscriptable''), w2)
      | Some (lo, hi) \<Rightarrow>
      let slice_height = snd (snd lo) + 1 / 10;
          w3 = say (''Slicing at: '' @ repr_float env slice_height) w2;
          w4 = record_call (MeshSection (0, 0, slice_height) (0, 0, 1)) w3
      in
      (case mesh_section mesh (0, 0, slice_height) (0, 0, 1) of
        Inl e \<Rightarrow> (Inl e, w4)
      | Inr None \<Rightarrow> (Inr False, say_all [cross_mark @ '' No valid slice!''] w4)
      | Inr (Some section3d) \<Rightarrow>
      let w5 = record_call ToPlanar (say (check_mark @ '' Slice created'') w4) in
      (case to_planar section3d of
        Inl e \<Rightarrow> (Inl e, w5)
      | Inr slice_2d \<Rightarrow>
      let svg_path = output_dir @ [''floorplan.svg''];
          w6 = record_call (SvgExport svg_path) w5
      in
      (case export_svg slice_2d svg_path (fsys w6) of
        Inl e \<Rightarrow> (Inl e, w6)
      | Inr fs7 \<Rightarrow>
      let w7 = say (check_mark @ '' SVG: '' @ str_path svg_path) (w6\<lparr>fsys := fs7\<rparr>) in
      (case pil_import env of
        Some e \<Rightarrow> (Inl e, w7)
      | None \<Rightarrow>
      (case draw_floorplan env slice_2d of
        Inl e \<Rightarrow> (Inl e, w7)
      | Inr img \<Rightarrow>
      let png_path = output_dir @ [''floorplan.png''];
          w8 = record_call (PngSave png_path) w7
      in
      (case img_save img png_path (fsys w8) of
        Inl e \<Rightarrow> (Inl e, w8)
      | Inr fs9 \<Rightarrow>
          (Inr True, say (check_mark @ '' PNG: '' @ str_path png_path) (w8\<lparr>fsys := fs9\<rparr>))))))))))"

text \<open>The function of \<^verbatim>\<open>floorplan_pipeline.py\<close>: \<^verbatim>\<open>mkdir\<close> stands before the \<^verbatim>\<open>try\<close>, so its exception leaves the function; \<^verbatim>\<open>except Exception\<close> turns every exception of the body into \<^verbatim>\<open>False\<close>.\<close>

definition fp_generate_floorplan_from_mesh ::
    "env \<Rightarrow> path \<Rightarrow> path \<Rightarrow> world \<Rightarrow> (exn + bool) \<times> world" where
  "fp_generate_floorplan_from_mesh env mesh_path output_dir w0 =
     (case mkdir_parents output_dir (fsys w0) of
        Inl e \<Rightarrow> (Inl e, w0)
      | Inr fs1 \<Rightarrow>
          (case fp_floorplan_body env mesh_path output_dir (w0\<lparr>fsys := fs1\<rparr>) of
             (Inl e, w') \<Rightarrow>
               (Inr False, print_exc e (say (cross_mark @ '' Error: '' @ exn_msg e) w'))
           | (Inr r, w') \<Rightarrow> (Inr r, w')))"

text \<open>The same for \<^verbatim>\<open>nerfstudio_automate.py\<close>.\<close>

definition ns_floorplan_body :: "env \<Rightarrow> path \<Rightarrow> path \<Rightarrow> world \<Rightarrow> (exn + bool) \<times> world" where
  "ns_floorplan_body env mesh_path output_dir w0 =
     (let w1 = record_call (MeshLoad mesh_path) (say (''Loading mesh from: '' @ str_path mesh_path) w0) in
      case trimesh_load env (fsys w1) mesh_path of
        Inl e \<Rightarrow> (Inl e, w1)
      | Inr mesh \<Rightarrow>
      let w2 = say_all [''Mesh bounds: '' @ repr_bounds env (mesh_bounds mesh),
                        ''Mesh has '' @ str_nat (mesh_vertex_count mesh) @ '' vertices''] w1 in
      (case mesh_bounds mesh of
        None \<Rightarrow> (Inl (Exn ''TypeError'' ''NoneType object is not subscriptable''), w2)
      | Some (lo, hi) \<Rightarrow>
      let slice_height = snd (snd lo) + 1 / 10;
          w3 = say (''Slicing at height: '' @ repr_float env slice_height) w2;
          w4 = record_call (MeshSection (0, 0, slice_height) (0, 0, 1)) w3
      in
      (case mesh_section mesh (0, 0, slice_height) (0, 0, 1) of
        Inl e \<Rightarrow> (Inl e, w4)
      | Inr None \<Rightarrow> (Inr False, say_all [cross_mark @ '' No valid slice found at this height!'', ''Try adjusting the slice height or check if the mesh is valid.''] w4)
      | Inr (Some section3d) \<Rightarrow>
      let w5 = record_call ToPlanar (say (check_mark @ '' Slice created successfully'') w4) in
      (case to_planar section3d of
        Inl e \<Rightarrow> (Inl e, w5)
      | Inr slice_2d \<Rightarrow>
      let svg_path = output_dir @ [''floorplan.svg''];
          w6 = record_call (SvgExport svg_path) w5
      in
      (case export_svg slice_2d svg_path (fsys w6) of
        Inl e \<Rightarrow> (Inl e, w6)
      | Inr fs7 \<Rightarrow>
      let w7 = say (check_mark @ '' SVG saved: '' @ str_path svg_path) (w6\<lparr>fsys := fs7\<rparr>) in
      (case pil_import env of
        Some e \<Rightarrow> (Inl e, w7)
      | None \<Rightarrow>
      (case draw_floorplan env slice_2d of
        Inl e \<Rightarrow> (Inl e, w7)
      | Inr img \<Rightarrow>
      let png_path = output_dir @ [''floorplan.png''];
          w8 = record_call (PngSave png_path) w7
      in
      (case img_save img png_path (fsys w8) of
        Inl e \<Rightarrow> (Inl e, w8)
      | Inr fs9 \<Rightarrow>
          (Inr True, say (check_mark @ '' PNG saved: '' @ str_path png_path) (w8\<lparr>fsys := fs9\<rparr>))))))))))"

text \<open>The function of \<^verbatim>\<open>nerfstudio_automate.py\<close>.\<close>

definition ns_generate_floorplan_from_mesh ::
    "env \<Rightarrow> path \<Rightarrow> path \<Rightarrow> world \<Rightarrow> (exn + bool) \<times> world" where
  "ns_generate_floorplan_from_mesh env mesh_path output_dir w0 =
     (case mkdir_parents output_dir (fsys w0) of
        Inl e \<Rightarrow> (Inl e, w0)
      | Inr fs1 \<Rightarrow>
          (case ns_floorplan_body env mesh_path output_dir (w0\<lparr>fsys := fs1\<rparr>) of
             (Inl e, w') \<Rightarrow>
               (Inr False, print_exc e (say (cross_mark @ '' Error generating floor plan: '' @ exn_msg e) w'))
           | (Inr r, w') \<Rightarrow> (Inr r, w')))"


section \<open>\<^verbatim>\<open>train_and_export_floorplan\<close>\<close>

text \<open>The function of \<^verbatim>\<open>floorplan_pipeline.py\<close>.  Nothing here catches an exception.\<close>

definition fp_train_and_export_floorplan ::
    "env \<Rightarrow> path \<Rightarrow> path \<Rightarrow> path \<Rightarrow> int \<Rightarrow> world \<Rightarrow> (exn + bool) \<times> world" where
  "fp_train_and_export_floorplan env data_dir colmap_sparse_path output_dir max_iterations w0 =
     (case mkdir_parents output_dir (fsys w0) of
        Inl e \<Rightarrow> (Inl e, w0)
      | Inr fs1 \<Rightarrow>
      let w1 = w0\<lparr>fsys := fs1\<rparr> in
      if \<not> path_exists (fsys w1) data_dir then
        (Inr False, say (cross_mark @ '' Data directory not found: '' @ str_path data_dir) w1)
      else if \<not> path_exists (fsys w1) colmap_sparse_path then
        (Inr False, say (cross_mark @ '' COLMAP data not found: '' @ str_path colmap_sparse_path) w1)
      else
      let w2 = say_all [banner, ''STEP 1: TRAINING NERF'', banner,
                        ''Data: '' @ str_path data_dir,
                        ''COLMAP: '' @ str_path colmap_sparse_path,
                        ''Output: '' @ str_path output_dir,
                        ''Iterations: '' @ str_int max_iterations,
                        []] w1;
          train_cmd = [''ns-train'', ''nerfacto'',
                       ''--output-dir'', str_path output_dir,
                       ''--max-num-iterations'', str_int max_iterations,
                       ''colmap'',
                       ''--data'', str_path data_dir,
                       ''--colmap-path'', ''colmap/sparse/0''];
          w3 = say (''Running: '' @ join_words train_cmd) w2
      in
      (case subprocess_run env train_cmd w3 of
        (Inl e, w4) \<Rightarrow> (Inl e, w4)
      | (Inr returncode, w4) \<Rightarrow>
      if returncode \<noteq> 0 then (Inr False, say (cross_mark @ '' Training failed!'') w4)
      else
      let w5 = say_all [check_mark @ '' Training complete!'',
                        nl @ banner, ''STEP 2: EXPORTING MESH'', banner] w4;
          config_files = glob_rec (fsys w5) output_dir ''config.yml''
      in
      if config_files = [] then (Inr False, say (cross_mark @ '' No config.yml found!'') w5)
      else
      (case newest (fsys w5) config_files of
        Inl e \<Rightarrow> (Inl e, w5)
      | Inr config_path \<Rightarrow>
      let w6 = say (''Using config: '' @ str_path config_path) w5;
          export_dir = butlast config_path @ [''exports'', ''mesh'']
      in
      (case mkdir_parents export_dir (fsys w6) of
        Inl e \<Rightarrow> (Inl e, w6)
      | Inr fs7 \<Rightarrow>
      let export_cmd = [''ns-export'', ''poisson'',
                        ''--load-config'', str_path config_path,
                        ''--output-dir'', str_path export_dir,
                        ''--num-points'', ''1000000'',
                        ''--remove-outliers'', ''True''];
          w7 = say (''Running: '' @ join_words export_cmd) (w6\<lparr>fsys := fs7\<rparr>)
      in
      (case subprocess_run env export_cmd w7 of
        (Inl e, w8) \<Rightarrow> (Inl e, w8)
      | (Inr returncode, w8) \<Rightarrow>
      if returncode \<noteq> 0 then (Inr False, say (cross_mark @ '' Mesh export failed!'') w8)
      else
      let w9 = say (check_mark @ '' Mesh export complete!'') w8;
          mesh_files = glob_suffix (fsys w9) export_dir ''.ply''
      in
      if mesh_files = [] then (Inr False, say (cross_mark @ '' No mesh file found!'') w9)
      else
      (case newest (fsys w9) mesh_files of
        Inl e \<Rightarrow> (Inl e, w9)
      | Inr mesh_path \<Rightarrow>
      let w10 = say_all [''Mesh: '' @ str_path mesh_path,
                         nl @ banner, ''STEP 3: GENERATING FLOOR PLAN'', banner] w9
      in
      (case fp_generate_floorplan_from_mesh env mesh_path (output_dir @ [''floorplan'']) w10 of
        (Inl e, w11) \<Rightarrow> (Inl e, w11)
      | (Inr success, w11) \<Rightarrow>
          (Inr success,
           if success then
             say_all [nl @ banner, check_mark @ '' PIPELINE COMPLETE!'', banner,
                      nl @ ''Results:'',
                      ''  PNG: '' @ str_path (output_dir @ [''floorplan'', ''floorplan.png'']),
                      ''  SVG: '' @ str_path (output_dir @ [''floorplan'', ''floorplan.svg''])] w11
           else w11))))))))"

text \<open>The function of \<^verbatim>\<open>nerfstudio_automate.py\<close>: it does not look at \<^verbatim>\<open>data_dir\<close> or \<^verbatim>\<open>colmap_sparse_path\<close> before it starts the trainer.\<close>

definition ns_train_and_export_floorplan ::
    "env \<Rightarrow> path \<Rightarrow> path \<Rightarrow> path \<Rightarrow> int \<Rightarrow> world \<Rightarrow> (exn + bool) \<times> world" where
  "ns_train_and_export_floorplan env data_dir colmap_sparse_path output_dir max_iterations w0 =
     (case mkdir_parents output_dir (fsys w0) of
        Inl e \<Rightarrow> (Inl e, w0)
      | Inr fs1 \<Rightarrow>
      let w1 = w0\<lparr>fsys := fs1\<rparr> in

      let w2 = say_all [banner, ''STEP 1: TRAINING NERF'', banner] w1;
          train_cmd = [''ns-train'', ''nerfacto'',
                       ''--output-dir'', str_path output_dir,
                       ''--max-num-iterations'', str_int max_iterations,
                       ''colmap'',
                       ''--data'', str_path data_dir,
                       ''--colmap-path'', ''colmap/sparse/0''];
          w3 = say (''Running: '' @ join_words train_cmd) w2
      in
      (case subprocess_run env train_cmd w3 of
        (Inl e, w4) \<Rightarrow> (Inl e, w4)
      | (Inr returncode, w4) \<Rightarrow>
      if returncode \<noteq> 0 then (Inr False, say (cross_mark @ '' Training failed!'') w4)
      else
      let w5 = say_all [check_mark @ '' Training complete!'',
                        nl @ banner, ''STEP 2: EXPORTING MESH'', banner] w4;
          config_files = glob_rec (fsys w5) output_dir ''config.yml''
      in
      if config_files = [] then (Inr False, say (cross_mark @ '' No config.yml found! Training may have failed.'') w5)
      else
      (case newest (fsys w5) config_files of
        Inl e \<Rightarrow> (Inl e, w5)
      | Inr config_path \<Rightarrow>
      let w6 = say (''Using config: '' @ str_path config_path) w5;
          export_dir = butlast config_path @ [''exports'', ''mesh'']
      in
      (case mkdir_parents export_dir (fsys w6) of
        Inl e \<Rightarrow> (Inl e, w6)
      | Inr fs7 \<Rightarrow>
      let export_cmd = [''ns-export'', ''poisson'',
                        ''--load-config'', str_path config_path,
                        ''--output-dir'', str_path export_dir,
                        ''--num-points'', ''1000000'',
                        ''--remove-outliers'', ''True''];
          w7 = say (''Running: '' @ join_words export_cmd) (w6\<lparr>fsys := fs7\<rparr>)
      in
      (case subprocess_run env export_cmd w7 of
        (Inl e, w8) \<Rightarrow> (Inl e, w8)
      | (Inr returncode, w8) \<Rightarrow>
      if returncode \<noteq> 0 then (Inr False, say (cross_mark @ '' Mesh export failed!'') w8)
      else
      let w9 = say (check_mark @ '' Mesh export complete!'') w8;
          mesh_files = glob_suffix (fsys w9) export_dir ''.ply''
      in
      if mesh_files = [] then (Inr False, say (cross_mark @ '' No mesh file found!'') w9)
      else
      (case newest (fsys w9) mesh_files of
        Inl e \<Rightarrow> (Inl e, w9)
      | Inr mesh_path \<Rightarrow>
      let w10 = say_all [''Mesh saved at: '' @ str_path mesh_path,
                         nl @ banner, ''STEP 3: GENERATING FLOOR PLAN'', banner] w9
      in
      (case ns_generate_floorplan_from_mesh env mesh_path (output_dir @ [''floorplan'']) w10 of
        (Inl e, w11) \<Rightarrow> (Inl e, w11)
      | (Inr success, w11) \<Rightarrow>
          (Inr success,
           if success then
             say_all [nl @ banner, check_mark @ '' PIPELINE COMPLETE!'', banner,
                      nl @ ''Floor plan saved to: '' @ str_path (output_dir @ [''floorplan'']),
                      ''  - PNG: '' @ str_path (output_dir @ [''floorplan'', ''floorplan.png'']),
                      ''  - SVG: '' @ str_path (output_dir @ [''floorplan'', ''floorplan.svg''])] w11
           else w11))))))))"

section \<open>The scripts' entry points\<close>

text \<open>
  \<^verbatim>\<open>floorplan_pipeline.py\<close>, run with \<^verbatim>\<open>--data\<close>, \<^verbatim>\<open>--output\<close> and
  \<^verbatim>\<open>--iterations\<close>; the result is the exit code.  The GPU probe is a subprocess of its
  own, inside a \<^verbatim>\<open>try\<close> with a bare \<^verbatim>\<open>except\<close>.
\<close>

definition dockerenv :: path where
  "dockerenv = [''/.dockerenv'']"

definition fp_main :: "env \<Rightarrow> path \<Rightarrow> path \<Rightarrow> int \<Rightarrow> world \<Rightarrow> (exn + int) \<times> world" where
  "fp_main env data output iterations w0 =
     (let colmap_sparse_path = data @ [''colmap'', ''sparse'', ''0''];
          w1 = say_all [banner, ''FLOOR PLAN GENERATION PIPELINE'', banner,
                        ''Data: '' @ str_path data,
                        ''Output: '' @ str_path output,
                        ''Iterations: '' @ str_int iterations,
                        []] w0;
          w2 = (if path_exists (fsys w1) dockerenv
                then say (check_mark @ '' Running in Docker'') w1
                else say (warning_sign @ '' Not running in Docker'') w1);
          w3 = (case subprocess_run env [''nvidia-smi''] w2 of
                  (Inl e, w) \<Rightarrow> say (warning_sign @ '' Could not check GPU'') w
                | (Inr returncode, w) \<Rightarrow>
                    if returncode = 0 then say (check_mark @ '' GPU detected'') w
                    else say (warning_sign @ '' No GPU detected'') w);
          w4 = say [] w3
      in
      case fp_train_and_export_floorplan env data colmap_sparse_path output iterations w4 of
        (Inl e, w5) \<Rightarrow> (Inl e, w5)
      | (Inr success, w5) \<Rightarrow>
          if success
          then (Inr 0, say (nl @ party_popper @ '' Done! Check output directory for results.'') w5)
          else (Inr 1, say (nl @ cross_mark @ '' Pipeline failed.'') w5))"

text \<open>\<^verbatim>\<open>nerfstudio_automate.py\<close>: fixed paths, no exit code of its own.\<close>

definition ns_main :: "env \<Rightarrow> world \<Rightarrow> (exn + int) \<times> world" where
  "ns_main env w0 =
     (let data_dir = [''data'', ''room_1''];
          colmap_sparse_path = [''data'', ''room_1'', ''colmap'', ''sparse'', ''0''];
          output_dir = [''output'', ''room_1''];
          max_iterations = 10000;
          w1 = say_all [''Starting automated floor plan generation...'',
                        ''Data directory: ./data/room_1'',
                        ''COLMAP path: ./data/room_1/colmap/sparse/0'',
                        ''Output directory: ./output/room_1'',
                        ''Max iterations: '' @ str_int max_iterations,
                        []] w0
      in
      case ns_train_and_export_floorplan env data_dir colmap_sparse_path output_dir max_iterations w1 of
        (Inl e, w2) \<Rightarrow> (Inl e, w2)
      | (Inr success, w2) \<Rightarrow>
          if success
          then (Inr 0, say (nl @ party_popper @ '' All done! Check your output directory for the floor plan.'') w2)
          else (Inr 0, say (nl @ cross_mark @ '' Pipeline failed. Check errors above.'') w2))"

section \<open>Notions used in the statements and proofs\<close>

text \<open>What a run leaves behind apart from the text it printed: the value returned or
  the exception raised, the file system, the subprocesses and library calls, and the
  tracebacks.\<close>

definition observable ::
    "(exn + 'a) \<times> world \<Rightarrow> (exn + 'a) \<times> filesystem \<times> event list \<times> exn list" where
  "observable rw = (fst rw, fsys (snd rw), calls (snd rw), tracebacks (snd rw))"

text \<open>The observable part of \<^verbatim>\<open>generate_floorplan_from_mesh\<close> as a function of the
  file system, the calls and the tracebacks it starts from.\<close>

definition gen_obs :: "env \<Rightarrow> path \<Rightarrow> path \<Rightarrow> filesystem \<Rightarrow> event list \<Rightarrow> exn list
    \<Rightarrow> (exn + bool) \<times> filesystem \<times> event list \<times> exn list" where
  "gen_obs env mesh_path output_dir fs cs tb =
     observable (fp_generate_floorplan_from_mesh env mesh_path output_dir
                   \<lparr>fsys = fs, calls = cs, out = [], tracebacks = tb\<rparr>)"

text \<open>The sort key of a listed path.\<close>

definition key_of :: "filesystem \<Rightarrow> path \<Rightarrow> real" where
  "key_of fs p = (case lookup fs p of Some n \<Rightarrow> mtime n | None \<Rightarrow> 0)"

definition in_unit :: "vec2 \<Rightarrow> bool" where
  "in_unit v = (0 \<le> fst v \<and> fst v \<le> 1 \<and> 0 \<le> snd v \<and> snd v \<le> 1)"

definition in_margin :: "vec2 \<Rightarrow> bool" where
  "in_margin v = (50 \<le> fst v \<and> fst v \<le> 1950 \<and> 50 \<le> snd v \<and> snd v \<le> 1950)"

text \<open>The file system as the GPU probe of \<^verbatim>\<open>floorplan_pipeline.py\<close> leaves it, and
  the line that script prints for a missing input.\<close>

definition probe_fs :: "env \<Rightarrow> filesystem \<Rightarrow> filesystem" where
  "probe_fs env fs =
     (case run_process env [''nvidia-smi''] fs of Inl e \<Rightarrow> fs | Inr (rc, fs') \<Rightarrow> fs')"

definition missing_message :: "filesystem \<Rightarrow> path \<Rightarrow> path \<Rightarrow> string" where
  "missing_message fs data_dir colmap_sparse_path =
     (if \<not> path_exists fs data_dir
      then cross_mark @ '' Data directory not found: '' @ str_path data_dir
      else cross_mark @ '' COLMAP data not found: '' @ str_path colmap_sparse_path)"

section \<open>Concrete inputs\<close>

text \<open>
  A slice in the shape of a 2 by 1 rectangle, with one closed polyline and one entity of
  a single point; a slice without vertices; and three meshes: one whose section is the
  rectangle, one whose section has no vertices, one that the plane misses.
\<close>

definition rectangle :: path2d where
  "rectangle = \<lparr>vertices = [(0, 0), (2, 0), (2, 1), (0, 1)],
                entities = [[0, 1, 2, 3, 0], [2]],
                to_svg = Inr ''<svg/>''\<rparr>"

definition no_vertices :: path2d where
  "no_vertices = \<lparr>vertices = [], entities = [], to_svg = Inr ''<svg/>''\<rparr>"

definition room_mesh :: mesh where
  "room_mesh = \<lparr>mesh_vertex_count = 8,
                mesh_bounds = Some ((0, 0, 0), (2, 1, 3)),
                mesh_section = (\<lambda>origin normal.
                   if origin = (0, 0, 1 / 10) \<and> normal = (0, 0, 1)
                   then Inr (Some \<lparr>to_planar = Inr rectangle\<rparr>) else Inr None)\<rparr>"

definition dust_mesh :: mesh where
  "dust_mesh = \<lparr>mesh_vertex_count = 3,
                mesh_bounds = Some ((0, 0, 0), (1, 1, 1)),
                mesh_section = (\<lambda>origin normal. Inr (Some \<lparr>to_planar = Inr no_vertices\<rparr>))\<rparr>"

definition flat_mesh :: mesh where
  "flat_mesh = \<lparr>mesh_vertex_count = 4,
                mesh_bounds = Some ((0, 0, 5), (1, 1, 5)),
                mesh_section = (\<lambda>origin normal. Inr None)\<rparr>"

text \<open>An environment in which every external command exits with code 1 and the loader
  knows the three meshes by name.\<close>

definition demo_env :: env where
  "demo_env =
     \<lparr>run_process = (\<lambda>cmd fs. Inr (1, fs)),
      trimesh_load = (\<lambda>fs p.
         if p = [''room.ply''] then Inr room_mesh
         else if p = [''dust.ply''] then Inr dust_mesh
         else if p = [''flat.ply''] then Inr flat_mesh
         else Inl (Exn ''ValueError'' ''not a mesh'')),
      pil_import = None,
      np_degenerate = (\<lambda>vs. Inl (Exn ''FloatingPointError'' ''invalid value'')),
      repr_float = (\<lambda>x. ''?''),
      repr_bounds = (\<lambda>b. ''?'')\<rparr>"

definition dir_fs :: "path list \<Rightarrow> filesystem" where
  "dir_fs ds = \<lparr>entries = map (\<lambda>d. (d, Dir 0)) ds, clock = 0\<rparr>"

definition world_of :: "filesystem \<Rightarrow> world" where
  "world_of fs = \<lparr>fsys = fs, calls = [], out = [], tracebacks = []\<rparr>"

text \<open>Three mesh files in an export directory, with modification times 1, 3 and 2; and
  two configuration files with the same modification time.\<close>

definition mesh_example :: filesystem where
  "mesh_example =
     \<lparr>entries = [([''mesh''], Dir 0),
                 ([''mesh'', ''a.ply''], File 1 (Bytes ''a'')),
                 ([''mesh'', ''b.ply''], File 3 (Bytes ''b'')),
                 ([''mesh'', ''c.ply''], File 2 (Bytes ''c''))],
      clock = 4\<rparr>"

definition tie_example :: filesystem where
  "tie_example =
     \<lparr>entries = [([''out''], Dir 0),
                 ([''out'', ''run1''], Dir 0),
                 ([''out'', ''run2''], Dir 0),
                 ([''out'', ''run1'', ''config.yml''], File 7 (Text ''one'')),
                 ([''out'', ''run2'', ''config.yml''], File 7 (Text ''two''))],
      clock = 8\<rparr>"

text \<open>A file system in which the data directory and the COLMAP path exist.\<close>

definition data_fs :: filesystem where
  "data_fs = dir_fs [[''data''], [''data'', ''room_1''], [''data'', ''room_1'', ''colmap''],
                     [''data'', ''room_1'', ''colmap'', ''sparse''],
                     [''data'', ''room_1'', ''colmap'', ''sparse'', ''0'']]"

text \<open>An environment whose trainer exits with code 0 and writes a \<^verbatim>\<open>config.yml\<close>,
  whose exporter exits with code 0 and writes a \<^verbatim>\<open>mesh.ply\<close>, and whose loader reads that
  file as the room mesh.\<close>

definition stub_env :: env where
  "stub_env =
     \<lparr>run_process = (\<lambda>cmd fs.
         if take 1 cmd = [''ns-train'']
         then Inr (0, fs\<lparr>entries := entries fs @
                        [([''output'', ''room_1'', ''config.yml''], File (clock fs) (Text ''config''))]\<rparr>)
         else if take 1 cmd = [''ns-export'']
         then Inr (0, fs\<lparr>entries := entries fs @
                        [([''output'', ''room_1'', ''exports'', ''mesh'', ''mesh.ply''],
                          File (clock fs) (Bytes ''ply''))]\<rparr>)
         else Inr (1, fs)),
      trimesh_load = (\<lambda>fs p.
         if p = [''output'', ''room_1'', ''exports'', ''mesh'', ''mesh.ply''] then Inr room_mesh
         else Inl (Exn ''ValueError'' ''not a mesh'')),
      pil_import = None,
      np_degenerate = (\<lambda>vs. Inl (Exn ''FloatingPointError'' ''invalid value'')),
      repr_float = (\<lambda>x. ''?''),
      repr_bounds = (\<lambda>b. ''?'')\<rparr>"

section \<open>Auxiliary facts\<close>

declare mkdir_parents.simps [simp del]
declare str_nat.simps [simp del]

subsection \<open>Stable sorting\<close>

lemma insort_key_map:
  "insort_key f (g x) (map g xs) = map g (insort_key (\<lambda>y. f (g y)) x xs)"
  by (induction xs) auto

lemma sort_key_map:
  "sort_key f (map g xs) = map g (sort_key (\<lambda>y. f (g y)) xs)"
  by (induction xs) (auto simp: insort_key_map)

lemma sorted_le_last: "sorted xs \<Longrightarrow> x \<in> set xs \<Longrightarrow> x \<le> last xs"
  by (induction xs) auto

lemma last_filter_keep: "xs \<noteq> [] \<Longrightarrow> P (last xs) \<Longrightarrow> last (filter P xs) = last xs"
  by (induction xs) (auto simp: filter_empty_conv)

lemma last_sort_key:
  assumes "xs \<noteq> []"
  shows "last (sort_key f xs) \<in> set xs"
    and "\<forall>x\<in>set xs. f x \<le> f (last (sort_key f xs))"
    and "last (sort_key f xs) = last (filter (\<lambda>x. f x = f (last (sort_key f xs))) xs)"
proof -
  let ?s = "sort_key f xs"
  have ne: "?s \<noteq> []" using assms by (metis length_sort length_0_conv)
  show "last ?s \<in> set xs" using ne last_in_set by fastforce
  show "\<forall>x\<in>set xs. f x \<le> f (last ?s)"
  proof
    fix x assume "x \<in> set xs"
    then have "f x \<in> set (map f ?s)" by simp
    moreover have "sorted (map f ?s)" by simp
    ultimately have "f x \<le> last (map f ?s)" by (rule sorted_le_last[rotated])
    then show "f x \<le> f (last ?s)" using ne by (simp add: last_map)
  qed
  have "last (filter (\<lambda>x. f x = f (last ?s)) ?s) = last ?s"
    by (rule last_filter_keep[OF ne]) simp
  then show "last ?s = last (filter (\<lambda>x. f x = f (last ?s)) xs)"
    by (simp add: sort_key_stable)
qed

subsection \<open>Modification times of listed paths\<close>

lemma map_exn_st_mtime:
  "\<forall>p\<in>set files. lookup fs p \<noteq> None \<Longrightarrow>
   map_exn (st_mtime fs) files = Inr (map (key_of fs) files)"
  by (induction files) (auto simp: st_mtime_def key_of_def)

lemma sorted_by_mtime_eq:
  assumes "\<forall>p\<in>set files. lookup fs p \<noteq> None"
  shows "sorted_by_mtime fs files = Inr (sort_key (key_of fs) files)"
proof -
  have "zip (map (key_of fs) files) files = map (\<lambda>p. (key_of fs p, p)) files"
    by (induction files) auto
  then show ?thesis
    using assms by (simp add: sorted_by_mtime_def map_exn_st_mtime sort_key_map comp_def)
qed

lemma glob_rec_listed: "p \<in> set (glob_rec fs d name) \<Longrightarrow> lookup fs p \<noteq> None"
  by (auto simp: glob_rec_def lookup_def map_of_eq_None_iff)

lemma glob_suffix_listed: "p \<in> set (glob_suffix fs d ext) \<Longrightarrow> lookup fs p \<noteq> None"
  by (auto simp: glob_suffix_def lookup_def map_of_eq_None_iff)

subsection \<open>Effect of \<open>mkdir_parents\<close> and \<open>write_file\<close>\<close>

lemma os_mkdir_lookup:
  assumes "os_mkdir p fs = Inr fs'"
  shows "lookup fs' q = (if q = p then Some (Dir (clock fs)) else lookup fs q)"
    and "lookup fs p = None" and "clock fs' = clock fs" and "p \<noteq> []"
  using assms
  by (auto simp: os_mkdir_def lookup_def path_exists_def map_add_def split: if_splits option.splits)

lemma mkdir_parents_effect:
  "mkdir_parents p fs = Inr fs' \<Longrightarrow>
     is_dir fs' p \<and> clock fs' = clock fs \<and>
     (\<forall>q. lookup fs q \<noteq> None \<longrightarrow> lookup fs' q = lookup fs q) \<and>
     (\<forall>q. lookup fs q = None \<longrightarrow> lookup fs' q \<noteq> None \<longrightarrow>
          prefix q p \<and> lookup fs' q = Some (Dir (clock fs)))"
proof (induction p fs arbitrary: fs' rule: mkdir_parents.induct)
  case (1 p fs)
  show ?case
  proof (cases "os_mkdir p fs")
    case (Inr fs0)
    then have "fs' = fs0" using "1.prems" by (simp add: mkdir_parents.simps[of p fs])
    then show ?thesis using os_mkdir_lookup[OF Inr] by (auto simp: is_dir_def)
  next
    case (Inl e)
    show ?thesis
    proof (cases "exn_class e = ''FileNotFoundError''")
      case False
      then have "fs' = fs" "is_dir fs p"
        using "1.prems" Inl by (auto simp: mkdir_parents.simps[of p fs] split: if_splits)
      then show ?thesis by auto
    next
      case True
      then have ne: "p \<noteq> []" using "1.prems" Inl
        by (auto simp: mkdir_parents.simps[of p fs] split: if_splits)
      from "1.prems" Inl True ne obtain fs1 where
        par: "mkdir_parents (butlast p) fs = Inr fs1" and
        step: "os_mkdir p fs1 = Inr fs' \<or> (fs' = fs1 \<and> is_dir fs1 p)"
        by (auto simp: mkdir_parents.simps[of p fs] split: sum.splits if_splits)
      note ih = "1.IH"[OF Inl True ne par]
      have pre: "\<And>q. prefix q (butlast p) \<Longrightarrow> prefix q p"
        by (metis prefix_order.trans prefixeq_butlast)
      from step show ?thesis
      proof
        assume os: "os_mkdir p fs1 = Inr fs'"
        show ?thesis using ih os_mkdir_lookup[OF os] pre
          by (auto simp: is_dir_def)
      next
        assume "fs' = fs1 \<and> is_dir fs1 p"
        then show ?thesis using ih pre by auto
      qed
    qed
  qed
qed

lemma map_of_map_replace:
  "map_of (map (\<lambda>(q, n). if q = p then (q, v) else (q, n)) xs) q =
     (if q = p then (if map_of xs p = None then None else Some v) else map_of xs q)"
  by (induction xs) auto

lemma write_file_lookup:
  assumes "write_file p b fs = Inr fs'"
  shows "lookup fs' q = (if q = p then Some (File (clock fs) b) else lookup fs q)"
    and "clock fs' = clock fs"
  using assms
  by (auto simp: write_file_def lookup_def path_exists_def is_dir_def map_of_map_replace map_add_def
           split: if_splits option.splits)

subsection \<open>Fields of the state\<close>

lemma say_fields [simp]:
  "fsys (say s w) = fsys w" "calls (say s w) = calls w"
  "tracebacks (say s w) = tracebacks w" "out (say s w) = out w @ [s]"
  by (simp_all add: say_def)

lemma say_all_fields [simp]:
  "fsys (say_all ls w) = fsys w" "calls (say_all ls w) = calls w"
  "tracebacks (say_all ls w) = tracebacks w" "out (say_all ls w) = out w @ ls"
  by (induction ls arbitrary: w) (simp_all add: say_all_def)

lemma record_call_fields [simp]:
  "fsys (record_call ev w) = fsys w" "calls (record_call ev w) = calls w @ [ev]"
  "tracebacks (record_call ev w) = tracebacks w" "out (record_call ev w) = out w"
  by (simp_all add: record_call_def)

lemma print_exc_fields [simp]:
  "fsys (print_exc e w) = fsys w" "calls (print_exc e w) = calls w"
  "tracebacks (print_exc e w) = tracebacks w @ [e]" "out (print_exc e w) = out w"
  by (simp_all add: print_exc_def)

subsection \<open>The two scripts' rasterizers agree\<close>

lemma generate_equiv:
  assumes "fsys w1 = fsys w2" "calls w1 = calls w2" "tracebacks w1 = tracebacks w2"
  shows "observable (fp_generate_floorplan_from_mesh env mesh_path output_dir w1)
       = observable (ns_generate_floorplan_from_mesh env mesh_path output_dir w2)"
  using assms
  by (simp add: observable_def fp_generate_floorplan_from_mesh_def ns_generate_floorplan_from_mesh_def
           fp_floorplan_body_def ns_floorplan_body_def Let_def
           split: sum.splits option.splits prod.splits)

lemma fp_generate_obs:
  "observable (fp_generate_floorplan_from_mesh env mesh_path output_dir w)
     = gen_obs env mesh_path output_dir (fsys w) (calls w) (tracebacks w)"
proof -
  have "observable (fp_generate_floorplan_from_mesh env mesh_path output_dir w)
      = observable (ns_generate_floorplan_from_mesh env mesh_path output_dir w)"
    by (rule generate_equiv) simp_all
  also have "\<dots> = observable (fp_generate_floorplan_from_mesh env mesh_path output_dir
                   \<lparr>fsys = fsys w, calls = calls w, out = [], tracebacks = tracebacks w\<rparr>)"
    by (rule generate_equiv[symmetric]) simp_all
  finally show ?thesis by (simp add: gen_obs_def)
qed

lemma ns_generate_obs:
  "observable (ns_generate_floorplan_from_mesh env mesh_path output_dir w)
     = gen_obs env mesh_path output_dir (fsys w) (calls w) (tracebacks w)"
  unfolding gen_obs_def by (rule generate_equiv[symmetric]) simp_all

lemma fp_generate_parts:
  "fst (fp_generate_floorplan_from_mesh env mp od w) = fst (gen_obs env mp od (fsys w) (calls w) (tracebacks w))"
  "fsys (snd (fp_generate_floorplan_from_mesh env mp od w)) = fst (snd (gen_obs env mp od (fsys w) (calls w) (tracebacks w)))"
  "calls (snd (fp_generate_floorplan_from_mesh env mp od w)) = fst (snd (snd (gen_obs env mp od (fsys w) (calls w) (tracebacks w))))"
  "tracebacks (snd (fp_generate_floorplan_from_mesh env mp od w)) = snd (snd (snd (gen_obs env mp od (fsys w) (calls w) (tracebacks w))))"
  using fp_generate_obs[of env mp od w, symmetric] by (simp_all add: observable_def)

lemma ns_generate_parts:
  "fst (ns_generate_floorplan_from_mesh env mp od w) = fst (gen_obs env mp od (fsys w) (calls w) (tracebacks w))"
  "fsys (snd (ns_generate_floorplan_from_mesh env mp od w)) = fst (snd (gen_obs env mp od (fsys w) (calls w) (tracebacks w)))"
  "calls (snd (ns_generate_floorplan_from_mesh env mp od w)) = fst (snd (snd (gen_obs env mp od (fsys w) (calls w) (tracebacks w))))"
  "tracebacks (snd (ns_generate_floorplan_from_mesh env mp od w)) = snd (snd (snd (gen_obs env mp od (fsys w) (calls w) (tracebacks w))))"
  using ns_generate_obs[of env mp od w, symmetric] by (simp_all add: observable_def)


subsection \<open>Files next to a created directory, and written files\<close>

lemma mkdir_parents_child_untouched:
  assumes "mkdir_parents d fs = Inr fs'"
  shows "lookup fs' (d @ [c]) = lookup fs (d @ [c])"
proof (cases "lookup fs (d @ [c])")
  case None
  have "\<not> prefix (d @ [c]) d" by (auto simp: prefix_def)
  then have "lookup fs' (d @ [c]) = None"
    using mkdir_parents_effect[OF assms] None by blast
  then show ?thesis using None by simp
next
  case (Some n)
  then show ?thesis using mkdir_parents_effect[OF assms] by auto
qed

lemma export_svg_is_file:
  assumes "export_svg slice_2d p fs = Inr fs'"
  shows "is_file fs' p" and "clock fs' = clock fs"
proof -
  from assms obtain svg_text where w: "write_file p (Text svg_text) fs = Inr fs'"
    by (auto simp: export_svg_def split: sum.splits)
  have "p \<noteq> []" using w by (auto simp: write_file_def is_dir_def split: if_splits)
  then show "is_file fs' p" using write_file_lookup(1)[OF w, of p] by (simp add: is_file_def)
  show "clock fs' = clock fs" using write_file_lookup(2)[OF w] .
qed

lemma img_save_lookup:
  "img_save img p fs = Inr fs' \<Longrightarrow> lookup fs' p = Some (File (clock fs) (Picture img))"
  using write_file_lookup(1)[of p "Picture img" fs fs' p] by (simp add: img_save_def)

subsection \<open>Normalization and drawing\<close>

lemma unit_fraction:
  fixes x lo hi :: real
  assumes "lo \<le> x" "x \<le> hi" "lo < hi"
  shows "0 \<le> (x - lo) / (hi - lo)" "(x - lo) / (hi - lo) \<le> 1"
  using assms by (simp_all add: divide_le_eq)

lemma normalize_in_unit:
  assumes "fst (axis_min vs) < fst (axis_max vs)" "snd (axis_min vs) < snd (axis_max vs)"
  shows "\<exists>ns. normalize env vs = Inr ns \<and> length ns = length vs \<and> list_all in_unit ns"
proof -
  let ?f = "\<lambda>v. ((fst v - fst (axis_min vs)) / (fst (axis_max vs) - fst (axis_min vs)),
                 (snd v - snd (axis_min vs)) / (snd (axis_max vs) - snd (axis_min vs)))"
  have n: "normalize env vs = Inr (map ?f vs)"
    using assms by (simp add: normalize_def Let_def)
  have "in_unit (?f v)" if "v \<in> set vs" for v
  proof -
    have "fst (axis_min vs) \<le> fst v" "fst v \<le> fst (axis_max vs)"
         "snd (axis_min vs) \<le> snd v" "snd v \<le> snd (axis_max vs)"
      using that by (simp_all add: axis_min_def axis_max_def)
    then show ?thesis
      using assms unit_fraction[of "fst (axis_min vs)" "fst v" "fst (axis_max vs)"]
        unit_fraction[of "snd (axis_min vs)" "snd v" "snd (axis_max vs)"]
      by (simp add: in_unit_def)
  qed
  then show ?thesis using n by (simp add: list_all_iff)
qed

text \<open>With zero extent on an axis the outcome of the normalization is the
  environment's.\<close>

lemma zero_extent_left_to_numpy:
  "fst (axis_max vs) = fst (axis_min vs) \<or> snd (axis_max vs) = snd (axis_min vs) \<Longrightarrow>
   normalize env vs = np_degenerate env vs"
  by (auto simp: normalize_def Let_def)

lemma to_canvas_in_margin:
  "list_all in_unit ns \<Longrightarrow> list_all in_margin (to_canvas 2000 ns)"
  by (induction ns) (auto simp: to_canvas_def in_unit_def in_margin_def)

lemma draw_entities_lines:
  "draw_entities vs es img = Inr img' \<Longrightarrow>
     im_lines img' = im_lines img @
       map (\<lambda>e. \<lparr>stroke_points = map (\<lambda>i. vs ! i) e, stroke_fill = ''black'', stroke_width = 5\<rparr>)
           (filter (\<lambda>e. 1 < length e) es)
   \<and> im_size img' = im_size img \<and> im_color img' = im_color img \<and> im_mode img' = im_mode img
   \<and> list_all (\<lambda>e. list_all (\<lambda>i. i < length vs) e) es"
proof (induction es arbitrary: img)
  case Nil
  then show ?case by simp
next
  case (Cons e es)
  from Cons.prems obtain points where
    tp: "take_points vs e = Inr points" and
    rest: "draw_entities vs es (if 1 < length points then draw_line points ''black'' 5 img else img) = Inr img'"
    by (auto split: sum.splits)
  from tp have pts: "points = map (\<lambda>i. vs ! i) e" "list_all (\<lambda>i. i < length vs) e"
    by (auto simp: take_points_def split: if_splits)
  show ?case
    using Cons.IH[OF rest] pts by (auto simp: draw_line_def)
qed

lemma draw_floorplan_image:
  assumes "draw_floorplan env slice_2d = Inr img"
  shows "im_mode img = ''RGB'' \<and> im_size img = (2000, 2000) \<and> im_color img = ''white''
       \<and> (\<forall>s\<in>set (im_lines img). stroke_fill s = ''black'' \<and> stroke_width s = 5
                                   \<and> 2 \<le> length (stroke_points s))"
  using assms
  by (auto simp: draw_floorplan_def Let_def image_new_def
           split: if_splits sum.splits dest!: draw_entities_lines)

lemma draw_floorplan_lines:
  assumes "draw_floorplan env slice_2d = Inr img" and "vertices slice_2d \<noteq> []"
  shows "\<exists>ns. normalize env (vertices slice_2d) = Inr ns
           \<and> list_all (\<lambda>e. list_all (\<lambda>i. i < length (to_canvas 2000 ns)) e) (entities slice_2d)
           \<and> im_lines img =
                map (\<lambda>e. \<lparr>stroke_points = map (\<lambda>i. to_canvas 2000 ns ! i) e,
                          stroke_fill = ''black'', stroke_width = 5\<rparr>)
                    (filter (\<lambda>e. 1 < length e) (entities slice_2d))"
  using assms
  by (auto simp: draw_floorplan_def Let_def image_new_def
           split: if_splits sum.splits dest!: draw_entities_lines)

lemma draw_floorplan_empty:
  "vertices slice_2d = [] \<Longrightarrow> draw_floorplan env slice_2d = Inr (image_new ''RGB'' (2000, 2000) ''white'')"
  by (simp add: draw_floorplan_def Let_def)

lemma strokes_in_margin:
  assumes "list_all in_margin cs" "list_all (\<lambda>i. i < length cs) e"
  shows "list_all in_margin (map (\<lambda>i. cs ! i) e)"
  using assms by (auto simp: list_all_iff)

lemma drawn_image_in_margin:
  assumes d: "draw_floorplan env s2 = Inr img"
    and ne: "vertices s2 \<noteq> []"
    and ext: "fst (axis_min (vertices s2)) < fst (axis_max (vertices s2))"
             "snd (axis_min (vertices s2)) < snd (axis_max (vertices s2))"
  shows "\<forall>s\<in>set (im_lines img). list_all in_margin (stroke_points s)"
proof -
  from draw_floorplan_lines[OF d ne] obtain ns where
    n: "normalize env (vertices s2) = Inr ns" and
    idx: "list_all (\<lambda>e. list_all (\<lambda>i. i < length (to_canvas 2000 ns)) e) (entities s2)" and
    ls: "im_lines img =
           map (\<lambda>e. \<lparr>stroke_points = map (\<lambda>i. to_canvas 2000 ns ! i) e,
                     stroke_fill = ''black'', stroke_width = 5\<rparr>)
               (filter (\<lambda>e. 1 < length e) (entities s2))"
    by blast
  from normalize_in_unit[OF ext, of env] n have "list_all in_unit ns" by auto
  then have m: "list_all in_margin (to_canvas 2000 ns)" by (rule to_canvas_in_margin)
  show ?thesis
    using idx strokes_in_margin[OF m] by (auto simp: ls list_all_iff)
qed

subsection \<open>The pipelines\<close>

lemma observable_pair [simp]: "observable (r, w) = (r, fsys w, calls w, tracebacks w)"
  by (simp add: observable_def)

lemma subprocess_run_cases:
  "subprocess_run env cmd w =
     (case run_process env cmd (fsys w) of
        Inl e \<Rightarrow> (Inl e, record_call (Subprocess cmd) w)
      | Inr p \<Rightarrow> (Inr (fst p), (record_call (Subprocess cmd) w)\<lparr>fsys := snd p\<rparr>))"
  by (simp add: subprocess_run_def Let_def split: sum.splits prod.splits)

lemma generate_tail:
  assumes "fsys w1 = fsys w2" "calls w1 = calls w2" "tracebacks w1 = tracebacks w2"
  shows "observable (case fp_generate_floorplan_from_mesh env mp od w1 of
                       (Inl e, w11) \<Rightarrow> (Inl e, w11)
                     | (Inr success, w11) \<Rightarrow> (Inr success, if success then say_all l1 w11 else w11))
       = observable (case ns_generate_floorplan_from_mesh env mp od w2 of
                       (Inl e, w11) \<Rightarrow> (Inl e, w11)
                     | (Inr success, w11) \<Rightarrow> (Inr success, if success then say_all l2 w11 else w11))"
  using generate_equiv[OF assms, of env mp od]
  by (auto simp: observable_def split: prod.splits sum.splits)

lemma train_equiv:
  assumes "\<forall>fs1. mkdir_parents output_dir (fsys w) = Inr fs1 \<longrightarrow>
             path_exists fs1 data_dir \<and> path_exists fs1 colmap_sparse_path"
  shows "observable (fp_train_and_export_floorplan env data_dir colmap_sparse_path output_dir n w)
       = observable (ns_train_and_export_floorplan env data_dir colmap_sparse_path output_dir n w)"
  using assms
  by (auto simp: fp_train_and_export_floorplan_def ns_train_and_export_floorplan_def
        subprocess_run_cases Let_def
      split: sum.splits intro!: generate_tail)

lemma missing_after_mkdir:
  assumes "mkdir_parents d fs = Inr fs1" "\<not> path_exists fs p" "\<not> prefix p d"
  shows "\<not> path_exists fs1 p"
proof -
  from assms(2) have p: "p \<noteq> []" "lookup fs p = None" by (auto simp: path_exists_def)
  have "lookup fs1 p = None"
  proof (rule ccontr)
    assume "lookup fs1 p \<noteq> None"
    with mkdir_parents_effect[OF assms(1)] p(2) have "prefix p d" by blast
    with assms(3) show False by simp
  qed
  with p(1) show ?thesis by (simp add: path_exists_def)
qed

lemma mkdir_parents_changes:
  assumes "mkdir_parents d fs = Inr fs1" "\<not> path_exists fs d"
  shows "fs1 \<noteq> fs"
  using mkdir_parents_effect[OF assms(1)] assms(2) by (auto simp: path_exists_def is_dir_def)

lemma fp_train_missing:
  assumes mk: "mkdir_parents output_dir (fsys w) = Inr fs1"
    and missing: "\<not> path_exists fs1 data_dir \<or> \<not> path_exists fs1 colmap_sparse_path"
  shows "fp_train_and_export_floorplan env data_dir colmap_sparse_path output_dir n w
           = (Inr False, say (missing_message fs1 data_dir colmap_sparse_path) (w\<lparr>fsys := fs1\<rparr>))"
  using mk missing
  by (auto simp: fp_train_and_export_floorplan_def missing_message_def)

lemma write_file_keeps_dir:
  assumes "write_file (d @ [c]) b fs = Inr fs'"
  shows "is_dir fs' d = is_dir fs d"
  using write_file_lookup(1)[OF assms, of d] by (simp add: is_dir_def)

lemma fp_generate_keeps_dir:
  assumes "mkdir_parents output_dir (fsys w) = Inr fs1"
  shows "is_dir (fsys (snd (fp_generate_floorplan_from_mesh env mesh_path output_dir w))) output_dir"
proof -
  have d: "is_dir fs1 output_dir" using mkdir_parents_effect[OF assms] by simp
  have svg: "\<And>s fs'. export_svg s (output_dir @ [''floorplan.svg'']) fs1 = Inr fs' \<Longrightarrow> is_dir fs' output_dir"
    using d write_file_keeps_dir by (auto simp: export_svg_def split: sum.splits)
  have png: "\<And>img fs fs'. img_save img (output_dir @ [''floorplan.png'']) fs = Inr fs'
                \<Longrightarrow> is_dir fs output_dir \<Longrightarrow> is_dir fs' output_dir"
    using write_file_keeps_dir by (auto simp: img_save_def)
  show ?thesis
    using assms d svg png
    by (auto simp: fp_generate_floorplan_from_mesh_def fp_floorplan_body_def Let_def
             split: sum.splits option.splits prod.splits)
qed


subsection \<open>Unfolding for concrete runs\<close>

lemmas run_defs =
  fp_generate_floorplan_from_mesh_def ns_generate_floorplan_from_mesh_def
  fp_floorplan_body_def ns_floorplan_body_def Let_def
  world_of_def dir_fs_def demo_env_def room_mesh_def dust_mesh_def flat_mesh_def
  rectangle_def no_vertices_def
  mkdir_parents.simps os_mkdir_def path_exists_def lookup_def is_dir_def is_file_def
  export_svg_def img_save_def write_file_def str_path_def
  draw_floorplan_def normalize_def axis_min_def axis_max_def to_canvas_def
  take_points_def draw_line_def image_new_def

lemmas pipeline_defs =
  fp_train_and_export_floorplan_def ns_train_and_export_floorplan_def fp_main_def ns_main_def
  subprocess_run_def say_def say_all_def record_call_def print_exc_def
  str_int_def str_nat.simps join_words_def dockerenv_def probe_fs_def missing_message_def

section \<open>Artifact selection\<close>

text \<open>
  C1.  The selection step, applied to the non-empty result of either glob (the
  \<^verbatim>\<open>config.yml\<close> files below the output directory, or the \<^verbatim>\<open>*.ply\<close> files in the
  export directory), returns one of the candidates; no candidate has a greater
  modification time; and among the candidates with that greatest modification time it is
  the last one in the order of the candidate list, which is where a stable sort leaves it.
\<close>

theorem newest_picks_latest:
  assumes "files = glob_rec fs d name \<or> files = glob_suffix fs d ext"
    and "files \<noteq> []"
  shows "\<exists>sel t. newest fs files = Inr sel \<and> sel \<in> set files \<and> st_mtime fs sel = Inr t \<and>
           (\<forall>p\<in>set files. \<exists>t'. st_mtime fs p = Inr t' \<and> t' \<le> t) \<and>
           sel = last (filter (\<lambda>p. st_mtime fs p = Inr t) files)"
proof -
  have listed: "\<forall>p\<in>set files. lookup fs p \<noteq> None"
    using assms(1) glob_rec_listed glob_suffix_listed by blast
  have key: "\<And>p. p \<in> set files \<Longrightarrow> st_mtime fs p = Inr (key_of fs p)"
    using listed by (auto simp: st_mtime_def key_of_def)
  let ?sel = "last (sort_key (key_of fs) files)"
  have ne: "sort_key (key_of fs) files \<noteq> []"
    using assms(2) by (metis length_sort length_0_conv)
  have n: "newest fs files = Inr ?sel"
    using ne by (simp add: newest_def sorted_by_mtime_eq[OF listed] split: list.splits)
  have mem: "?sel \<in> set files" by (rule last_sort_key(1)[OF assms(2)])
  have mx: "\<forall>p\<in>set files. key_of fs p \<le> key_of fs ?sel" by (rule last_sort_key(2)[OF assms(2)])
  have "filter (\<lambda>p. st_mtime fs p = Inr (key_of fs ?sel)) files
        = filter (\<lambda>p. key_of fs p = key_of fs ?sel) files"
    by (rule filter_cong) (auto simp: key)
  then have lst: "?sel = last (filter (\<lambda>p. st_mtime fs p = Inr (key_of fs ?sel)) files)"
    using last_sort_key(3)[OF assms(2), of "key_of fs"] by simp
  show ?thesis
    using n mem key[OF mem] mx lst key by (intro exI[of _ ?sel] exI[of _ "key_of fs ?sel"]) auto
qed

text \<open>The theorem at the spec's example: of \<^verbatim>\<open>a.ply\<close> (1), \<^verbatim>\<open>b.ply\<close> (3) and
  \<^verbatim>\<open>c.ply\<close> (2) the selection is \<^verbatim>\<open>b.ply\<close>; and at a tie: of two configuration
  files stamped 7 it is the one listed last.\<close>

theorem newest_picks_latest_witness:
  "glob_suffix mesh_example [''mesh''] ''.ply''
     = [[''mesh'', ''a.ply''], [''mesh'', ''b.ply''], [''mesh'', ''c.ply'']]
   \<and> newest mesh_example (glob_suffix mesh_example [''mesh''] ''.ply'') = Inr [''mesh'', ''b.ply'']
   \<and> st_mtime mesh_example [''mesh'', ''b.ply''] = Inr 3
   \<and> glob_rec tie_example [''out''] ''config.yml''
     = [[''out'', ''run1'', ''config.yml''], [''out'', ''run2'', ''config.yml'']]
   \<and> newest tie_example (glob_rec tie_example [''out''] ''config.yml'')
     = Inr [''out'', ''run2'', ''config.yml'']"
  using newest_picks_latest[of "glob_suffix mesh_example [''mesh''] ''.ply''" mesh_example
          "[''mesh'']" "''config.yml''" "''.ply''"]
        newest_picks_latest[of "glob_rec tie_example [''out''] ''config.yml''" tie_example
          "[''out'']" "''config.yml''" "''.ply''"]
  by (simp add: newest_def sorted_by_mtime_def glob_suffix_def glob_rec_def is_below_def
        mesh_example_def tie_example_def st_mtime_def lookup_def suffix_to_prefix)

section \<open>The rasterizer's failures\<close>

text \<open>
  C4.  When the mesh loads, has bounds, and the section at the computed height is
  \<^verbatim>\<open>None\<close>, both scripts' \<^verbatim>\<open>generate_floorplan_from_mesh\<close> return \<^verbatim>\<open>False\<close>;
  the mesh was asked for exactly one section (no second height is tried); and the file
  system is the one that creating the output directory left, in which
  \<^verbatim>\<open>floorplan.svg\<close> and \<^verbatim>\<open>floorplan.png\<close> are what they were before the call.
\<close>

theorem no_slice_no_output:
  assumes "mkdir_parents output_dir (fsys w) = Inr fs1"
    and "trimesh_load env fs1 mesh_path = Inr m"
    and "mesh_bounds m = Some (lo, hi)"
    and "mesh_section m (0, 0, snd (snd lo) + 1 / 10) (0, 0, 1) = Inr None"
  shows "(\<forall>gen\<in>{fp_generate_floorplan_from_mesh, ns_generate_floorplan_from_mesh}.
            fst (gen env mesh_path output_dir w) = Inr False
          \<and> fsys (snd (gen env mesh_path output_dir w)) = fs1
          \<and> calls (snd (gen env mesh_path output_dir w))
              = calls w @ [MeshLoad mesh_path, MeshSection (0, 0, snd (snd lo) + 1 / 10) (0, 0, 1)])
       \<and> lookup fs1 (output_dir @ [''floorplan.svg'']) = lookup (fsys w) (output_dir @ [''floorplan.svg''])
       \<and> lookup fs1 (output_dir @ [''floorplan.png'']) = lookup (fsys w) (output_dir @ [''floorplan.png''])"
  using assms mkdir_parents_child_untouched[OF assms(1)]
  by (simp add: fp_generate_floorplan_from_mesh_def ns_generate_floorplan_from_mesh_def
        fp_floorplan_body_def ns_floorplan_body_def Let_def)

text \<open>The theorem at a mesh that lies in the plane \<open>z = 5\<close> and is missed by the
  slicing plane at \<open>5.1\<close>.\<close>

theorem no_slice_no_output_witness:
  "mkdir_parents [''out''] (fsys (world_of (dir_fs []))) = Inr (dir_fs [[''out'']])
   \<and> trimesh_load demo_env (dir_fs [[''out'']]) [''flat.ply''] = Inr flat_mesh
   \<and> mesh_bounds flat_mesh = Some ((0, 0, 5), (1, 1, 5))
   \<and> mesh_section flat_mesh (0, 0, snd (snd (0, 0, 5)) + 1 / 10) (0, 0, 1) = Inr None
   \<and> fst (fp_generate_floorplan_from_mesh demo_env [''flat.ply''] [''out''] (world_of (dir_fs []))) = Inr False
   \<and> fst (ns_generate_floorplan_from_mesh demo_env [''flat.ply''] [''out''] (world_of (dir_fs []))) = Inr False
   \<and> fsys (snd (fp_generate_floorplan_from_mesh demo_env [''flat.ply''] [''out''] (world_of (dir_fs []))))
       = dir_fs [[''out'']]
   \<and> calls (snd (ns_generate_floorplan_from_mesh demo_env [''flat.ply''] [''out''] (world_of (dir_fs []))))
       = [MeshLoad [''flat.ply''], MeshSection (0, 0, 51 / 10) (0, 0, 1)]
   \<and> lookup (dir_fs [[''out'']]) [''out'', ''floorplan.svg''] = None
   \<and> lookup (dir_fs [[''out'']]) [''out'', ''floorplan.png''] = None"
proof -
  have h1: "mkdir_parents [''out''] (fsys (world_of (dir_fs []))) = Inr (dir_fs [[''out'']])"
    by (simp add: run_defs)
  have h2: "trimesh_load demo_env (dir_fs [[''out'']]) [''flat.ply''] = Inr flat_mesh"
    by (simp add: demo_env_def)
  have h3: "mesh_bounds flat_mesh = Some ((0, 0, 5), (1, 1, 5))"
    by (simp add: flat_mesh_def)
  have h4: "mesh_section flat_mesh (0, 0, snd (snd (0, 0, 5)) + 1 / 10) (0, 0, 1) = Inr None"
    by (simp add: flat_mesh_def)
  from no_slice_no_output[OF h1 h2 h3 h4] h1 h2 h3 h4
  show ?thesis by (simp add: world_of_def dir_fs_def lookup_def)
qed

text \<open>
  C7.  Once the output directory is made, neither script's
  \<^verbatim>\<open>generate_floorplan_from_mesh\<close> lets an exception out: it returns a boolean.  An
  exception of the mesh loader, of the section, of the planar projection, of the SVG
  export, of the PIL import, of the drawing or of saving the PNG gives \<^verbatim>\<open>False\<close> and a
  traceback of that exception.  When the SVG had been written before the failure, the
  file system the function leaves is the one with the SVG in it: nothing is removed.
\<close>

theorem exceptions_contained:
  assumes "mkdir_parents output_dir (fsys w) = Inr fs1"
  shows "\<forall>gen\<in>{fp_generate_floorplan_from_mesh, ns_generate_floorplan_from_mesh}.
     (\<exists>b w'. gen env mesh_path output_dir w = (Inr b, w'))
   \<and> ((\<forall>e. trimesh_load env fs1 mesh_path = Inl e \<longrightarrow>
          fst (gen env mesh_path output_dir w) = Inr False
        \<and> tracebacks (snd (gen env mesh_path output_dir w)) = tracebacks w @ [e])
   \<and> (\<forall>m lo hi. trimesh_load env fs1 mesh_path = Inr m \<and> mesh_bounds m = Some (lo, hi) \<longrightarrow>
        (\<forall>e. mesh_section m (0, 0, snd (snd lo) + 1 / 10) (0, 0, 1) = Inl e \<longrightarrow>
            fst (gen env mesh_path output_dir w) = Inr False
          \<and> tracebacks (snd (gen env mesh_path output_dir w)) = tracebacks w @ [e])
      \<and> (\<forall>s3. mesh_section m (0, 0, snd (snd lo) + 1 / 10) (0, 0, 1) = Inr (Some s3) \<longrightarrow>
          (\<forall>e. to_planar s3 = Inl e \<longrightarrow>
              fst (gen env mesh_path output_dir w) = Inr False
            \<and> tracebacks (snd (gen env mesh_path output_dir w)) = tracebacks w @ [e])
        \<and> (\<forall>s2. to_planar s3 = Inr s2 \<longrightarrow>
            (\<forall>e. export_svg s2 (output_dir @ [''floorplan.svg'']) fs1 = Inl e \<longrightarrow>
                fst (gen env mesh_path output_dir w) = Inr False
              \<and> tracebacks (snd (gen env mesh_path output_dir w)) = tracebacks w @ [e])
          \<and> (\<forall>fs7. export_svg s2 (output_dir @ [''floorplan.svg'']) fs1 = Inr fs7 \<longrightarrow>
              (\<forall>e. pil_import env = Some e
                    \<or> pil_import env = None \<and> draw_floorplan env s2 = Inl e
                    \<or> pil_import env = None \<and>
                       (\<exists>img. draw_floorplan env s2 = Inr img \<and>
                              img_save img (output_dir @ [''floorplan.png'']) fs7 = Inl e) \<longrightarrow>
                  fst (gen env mesh_path output_dir w) = Inr False
                \<and> tracebacks (snd (gen env mesh_path output_dir w)) = tracebacks w @ [e]
                \<and> fsys (snd (gen env mesh_path output_dir w)) = fs7
                \<and> is_file fs7 (output_dir @ [''floorplan.svg''])))))))"
    (is "\<forall>gen\<in>_. ?never gen \<and> ?stages gen")
proof -
  have svg: "\<And>s2 fs7. export_svg s2 (output_dir @ [''floorplan.svg'']) fs1 = Inr fs7
               \<Longrightarrow> is_file fs7 (output_dir @ [''floorplan.svg''])"
    by (rule export_svg_is_file(1))
  have never_fp: "?never fp_generate_floorplan_from_mesh"
    using assms by (auto simp: fp_generate_floorplan_from_mesh_def split: prod.splits sum.splits)
  have never_ns: "?never ns_generate_floorplan_from_mesh"
    using assms by (auto simp: ns_generate_floorplan_from_mesh_def split: prod.splits sum.splits)
  have stages_fp: "?stages fp_generate_floorplan_from_mesh"
    using assms svg
    by (auto simp: fp_generate_floorplan_from_mesh_def fp_floorplan_body_def Let_def)
  have stages_ns: "?stages ns_generate_floorplan_from_mesh"
    using assms svg
    by (auto simp: ns_generate_floorplan_from_mesh_def ns_floorplan_body_def Let_def)
  have fp: "?never fp_generate_floorplan_from_mesh \<and> ?stages fp_generate_floorplan_from_mesh"
    using never_fp stages_fp by (rule conjI)
  have ns: "?never ns_generate_floorplan_from_mesh \<and> ?stages ns_generate_floorplan_from_mesh"
    using never_ns stages_ns by (rule conjI)
  show ?thesis
  proof (rule ballI)
    fix gen
    assume g: "gen \<in> {fp_generate_floorplan_from_mesh, ns_generate_floorplan_from_mesh}"
    show "?never gen \<and> ?stages gen"
    proof (cases "gen = fp_generate_floorplan_from_mesh")
      case True
      show ?thesis unfolding True by (rule fp)
    next
      case False
      then have eq: "gen = ns_generate_floorplan_from_mesh" using g by simp
      show ?thesis unfolding eq by (rule ns)
    qed
  qed
qed

text \<open>The theorem where \<^verbatim>\<open>floorplan.png\<close> is a directory: a path that is no mesh
  fails in the loader; for the room mesh saving the PNG fails after the SVG was written,
  and the SVG stays.\<close>

theorem exceptions_contained_witness:
  "mkdir_parents [''out''] (fsys (world_of (dir_fs [[''out''], [''out'', ''floorplan.png'']])))
     = Inr (dir_fs [[''out''], [''out'', ''floorplan.png'']])
   \<and> fp_generate_floorplan_from_mesh demo_env [''none.ply''] [''out'']
        (world_of (dir_fs [[''out''], [''out'', ''floorplan.png'']]))
      = (Inr False,
         \<lparr>fsys = dir_fs [[''out''], [''out'', ''floorplan.png'']],
          calls = [MeshLoad [''none.ply'']],
          out = [''Loading mesh: none.ply'', cross_mark @ '' Error: not a mesh''],
          tracebacks = [Exn ''ValueError'' ''not a mesh'']\<rparr>)
   \<and> fst (fp_generate_floorplan_from_mesh demo_env [''room.ply''] [''out'']
             (world_of (dir_fs [[''out''], [''out'', ''floorplan.png'']]))) = Inr False
   \<and> tracebacks (snd (fp_generate_floorplan_from_mesh demo_env [''room.ply''] [''out'']
             (world_of (dir_fs [[''out''], [''out'', ''floorplan.png'']]))))
      = [Exn ''IsADirectoryError'' ''out/floorplan.png'']
   \<and> fst (ns_generate_floorplan_from_mesh demo_env [''room.ply''] [''out'']
             (world_of (dir_fs [[''out''], [''out'', ''floorplan.png'']]))) = Inr False
   \<and> lookup (fsys (snd (ns_generate_floorplan_from_mesh demo_env [''room.ply''] [''out'']
             (world_of (dir_fs [[''out''], [''out'', ''floorplan.png'']])))))
        [''out'', ''floorplan.svg'']
      = Some (File 0 (Text ''<svg/>''))"
proof -
  have h1: "mkdir_parents [''out''] (fsys (world_of (dir_fs [[''out''], [''out'', ''floorplan.png'']])))
     = Inr (dir_fs [[''out''], [''out'', ''floorplan.png'']])"
    by (simp add: run_defs)
  from exceptions_contained[OF h1, of demo_env "[''none.ply'']"]
       exceptions_contained[OF h1, of demo_env "[''room.ply'']"] h1
  show ?thesis by (simp add: run_defs say_def say_all_def record_call_def print_exc_def)
qed

section \<open>The slicing plane\<close>



section \<open>The canvas\<close>

text \<open>
  C6.  For a slice with at least one vertex and positive extent on both axes, the
  normalization yields coordinates in \<open>[0, 1]\<close> and the scaling coordinates in
  \<open>[50, 1950]\<close>, one pair per vertex.  Whenever either script's
  \<^verbatim>\<open>generate_floorplan_from_mesh\<close> returns \<^verbatim>\<open>True\<close> on such a slice,
  \<^verbatim>\<open>floorplan.png\<close> holds the image drawn from it: its size is 2000 by 2000, its
  background white, and every line on it is black, 5 wide, has at least two points, and
  all its points lie in \<open>[50, 1950]\<close> on both axes.
\<close>

theorem canvas_and_margin:
  assumes mk: "mkdir_parents output_dir (fsys w) = Inr fs1"
    and ld: "trimesh_load env fs1 mesh_path = Inr m"
    and bd: "mesh_bounds m = Some (lo, hi)"
    and sc: "mesh_section m (0, 0, snd (snd lo) + 1 / 10) (0, 0, 1) = Inr (Some s3)"
    and pl: "to_planar s3 = Inr s2"
    and ne: "vertices s2 \<noteq> []"
    and ext: "fst (axis_min (vertices s2)) < fst (axis_max (vertices s2))"
             "snd (axis_min (vertices s2)) < snd (axis_max (vertices s2))"
  shows "(\<exists>ns. normalize env (vertices s2) = Inr ns \<and> length ns = length (vertices s2)
              \<and> list_all in_unit ns \<and> list_all in_margin (to_canvas 2000 ns))
       \<and> (\<forall>gen\<in>{fp_generate_floorplan_from_mesh, ns_generate_floorplan_from_mesh}.
            fst (gen env mesh_path output_dir w) = Inr True \<longrightarrow>
            (\<exists>img t. lookup (fsys (snd (gen env mesh_path output_dir w))) (output_dir @ [''floorplan.png''])
                        = Some (File t (Picture img))
                \<and> draw_floorplan env s2 = Inr img
                \<and> im_size img = (2000, 2000) \<and> im_color img = ''white''
                \<and> (\<forall>s\<in>set (im_lines img).
                      stroke_fill s = ''black'' \<and> stroke_width s = 5
                    \<and> 2 \<le> length (stroke_points s)
                    \<and> list_all in_margin (stroke_points s))))"
    (is "?transform \<and> (\<forall>gen\<in>_. ?saved gen)")
proof -
  have t: ?transform
    using normalize_in_unit[OF ext, of env] to_canvas_in_margin by blast
  have img: "\<And>img. draw_floorplan env s2 = Inr img \<Longrightarrow>
               im_size img = (2000, 2000) \<and> im_color img = ''white''
             \<and> (\<forall>s\<in>set (im_lines img).
                      stroke_fill s = ''black'' \<and> stroke_width s = 5
                    \<and> 2 \<le> length (stroke_points s)
                    \<and> list_all in_margin (stroke_points s))"
    using draw_floorplan_image drawn_image_in_margin[OF _ ne ext] by blast
  have fp: "?saved fp_generate_floorplan_from_mesh"
    using mk ld bd sc pl img
    by (auto simp: fp_generate_floorplan_from_mesh_def fp_floorplan_body_def Let_def img_save_lookup
             split: sum.splits option.splits)
  have ns: "?saved ns_generate_floorplan_from_mesh"
    using mk ld bd sc pl img
    by (auto simp: ns_generate_floorplan_from_mesh_def ns_floorplan_body_def Let_def img_save_lookup
             split: sum.splits option.splits)
  have "\<forall>gen\<in>{fp_generate_floorplan_from_mesh, ns_generate_floorplan_from_mesh}. ?saved gen"
  proof (rule ballI)
    fix gen
    assume g: "gen \<in> {fp_generate_floorplan_from_mesh, ns_generate_floorplan_from_mesh}"
    show "?saved gen"
    proof (cases "gen = fp_generate_floorplan_from_mesh")
      case True
      show ?thesis unfolding True by (rule fp)
    next
      case False
      then have eq: "gen = ns_generate_floorplan_from_mesh" using g by simp
      show ?thesis unfolding eq by (rule ns)
    qed
  qed
  with t show ?thesis by (rule conjI)
qed

text \<open>The theorem at the 2 by 1 rectangle: its corners go to the corners of the
  square from 50 to 1950.\<close>

theorem canvas_and_margin_witness:
  "mkdir_parents [''out''] (fsys (world_of (dir_fs []))) = Inr (dir_fs [[''out'']])
   \<and> trimesh_load demo_env (dir_fs [[''out'']]) [''room.ply''] = Inr room_mesh
   \<and> mesh_bounds room_mesh = Some ((0, 0, 0), (2, 1, 3))
   \<and> mesh_section room_mesh (0, 0, snd (snd (0, 0, 0)) + 1 / 10) (0, 0, 1)
       = Inr (Some \<lparr>to_planar = Inr rectangle\<rparr>)
   \<and> vertices rectangle \<noteq> []
   \<and> fst (axis_min (vertices rectangle)) < fst (axis_max (vertices rectangle))
   \<and> snd (axis_min (vertices rectangle)) < snd (axis_max (vertices rectangle))
   \<and> normalize demo_env (vertices rectangle) = Inr [(0, 0), (1, 0), (1, 1), (0, 1)]
   \<and> to_canvas 2000 [(0, 0), (1, 0), (1, 1), (0, 1)] = [(50, 50), (1950, 50), (1950, 1950), (50, 1950)]
   \<and> fst (fp_generate_floorplan_from_mesh demo_env [''room.ply''] [''out''] (world_of (dir_fs []))) = Inr True
   \<and> fst (ns_generate_floorplan_from_mesh demo_env [''room.ply''] [''out''] (world_of (dir_fs []))) = Inr True
   \<and> lookup (fsys (snd (fp_generate_floorplan_from_mesh demo_env [''room.ply''] [''out''] (world_of (dir_fs [])))))
        [''out'', ''floorplan.png'']
       = Some (File 0 (Picture
           \<lparr>im_mode = ''RGB'', im_size = (2000, 2000), im_color = ''white'',
            im_lines = [\<lparr>stroke_points = [(50, 50), (1950, 50), (1950, 1950), (50, 1950), (50, 50)],
                         stroke_fill = ''black'', stroke_width = 5\<rparr>]\<rparr>))"
proof -
  have h1: "mkdir_parents [''out''] (fsys (world_of (dir_fs []))) = Inr (dir_fs [[''out'']])"
    by (simp add: run_defs)
  have h2: "trimesh_load demo_env (dir_fs [[''out'']]) [''room.ply''] = Inr room_mesh"
    by (simp add: demo_env_def)
  have h3: "mesh_bounds room_mesh = Some ((0, 0, 0), (2, 1, 3))"
    by (simp add: room_mesh_def)
  have h4: "mesh_section room_mesh (0, 0, snd (snd (0, 0, 0)) + 1 / 10) (0, 0, 1)
              = Inr (Some \<lparr>to_planar = Inr rectangle\<rparr>)"
    by (simp add: room_mesh_def)
  have h5: "to_planar \<lparr>to_planar = Inr rectangle\<rparr> = Inr rectangle" by simp
  have h6: "vertices rectangle \<noteq> []" by (simp add: rectangle_def)
  have h7: "fst (axis_min (vertices rectangle)) < fst (axis_max (vertices rectangle))"
    by (simp add: rectangle_def axis_min_def axis_max_def)
  have h8: "snd (axis_min (vertices rectangle)) < snd (axis_max (vertices rectangle))"
    by (simp add: rectangle_def axis_min_def axis_max_def)
  from canvas_and_margin[OF h1 h2 h3 h4 h5 h6 h7 h8] h1 h2 h3 h4 h6 h7 h8
  show ?thesis by (simp add: run_defs)
qed

text \<open>
  C8.  For a slice without vertices nothing is drawn: the image is the blank white 2000 by
  2000 canvas, and when saving it succeeds both scripts return \<^verbatim>\<open>True\<close> with that
  blank image in \<^verbatim>\<open>floorplan.png\<close>.  For a slice with vertices, the lines of the drawn
  image are, in order, exactly the entities with more than one point: an entity with fewer
  than two points leaves no line.
\<close>

theorem blank_canvas_and_short_entities:
  assumes mk: "mkdir_parents output_dir (fsys w) = Inr fs1"
    and ld: "trimesh_load env fs1 mesh_path = Inr m"
    and bd: "mesh_bounds m = Some (lo, hi)"
    and sc: "mesh_section m (0, 0, snd (snd lo) + 1 / 10) (0, 0, 1) = Inr (Some s3)"
    and pl: "to_planar s3 = Inr s2"
    and ex: "export_svg s2 (output_dir @ [''floorplan.svg'']) fs1 = Inr fs7"
    and pil: "pil_import env = None"
  shows "(vertices s2 = [] \<longrightarrow>
            draw_floorplan env s2 = Inr \<lparr>im_mode = ''RGB'', im_size = (2000, 2000),
                                         im_color = ''white'', im_lines = []\<rparr>
          \<and> (\<forall>fs9. img_save \<lparr>im_mode = ''RGB'', im_size = (2000, 2000),
                               im_color = ''white'', im_lines = []\<rparr>
                        (output_dir @ [''floorplan.png'']) fs7 = Inr fs9 \<longrightarrow>
               (\<forall>gen\<in>{fp_generate_floorplan_from_mesh, ns_generate_floorplan_from_mesh}.
                   fst (gen env mesh_path output_dir w) = Inr True
                 \<and> fsys (snd (gen env mesh_path output_dir w)) = fs9)
             \<and> lookup fs9 (output_dir @ [''floorplan.png''])
                 = Some (File (clock fs7) (Picture \<lparr>im_mode = ''RGB'', im_size = (2000, 2000),
                                                     im_color = ''white'', im_lines = []\<rparr>))))
       \<and> (\<forall>img. vertices s2 \<noteq> [] \<and> draw_floorplan env s2 = Inr img \<longrightarrow>
            (\<exists>ns. normalize env (vertices s2) = Inr ns
                \<and> im_lines img =
                    map (\<lambda>e. \<lparr>stroke_points = map (\<lambda>i. to_canvas 2000 ns ! i) e,
                              stroke_fill = ''black'', stroke_width = 5\<rparr>)
                        (filter (\<lambda>e. 1 < length e) (entities s2))))"
    (is "?blank_saved \<and> ?short_skipped")
proof -
  let ?blank = "\<lparr>im_mode = ''RGB'', im_size = (2000, 2000), im_color = ''white'', im_lines = []\<rparr>"
  have d: "vertices s2 = [] \<Longrightarrow> draw_floorplan env s2 = Inr ?blank"
    using draw_floorplan_empty[of s2 env] by (simp add: image_new_def)
  have run: "fst (fp_generate_floorplan_from_mesh env mesh_path output_dir w) = Inr True
           \<and> fsys (snd (fp_generate_floorplan_from_mesh env mesh_path output_dir w)) = fs9
           \<and> fst (ns_generate_floorplan_from_mesh env mesh_path output_dir w) = Inr True
           \<and> fsys (snd (ns_generate_floorplan_from_mesh env mesh_path output_dir w)) = fs9"
    if "vertices s2 = []" "img_save ?blank (output_dir @ [''floorplan.png'']) fs7 = Inr fs9" for fs9
    using mk ld bd sc pl ex pil d[OF that(1)] that(2)
    by (simp add: fp_generate_floorplan_from_mesh_def fp_floorplan_body_def
          ns_generate_floorplan_from_mesh_def ns_floorplan_body_def Let_def)
  have a: ?blank_saved
    using d run img_save_lookup by (intro conjI impI allI ballI) auto
  have b: ?short_skipped
  proof (intro allI impI)
    fix img
    assume h: "vertices s2 \<noteq> [] \<and> draw_floorplan env s2 = Inr img"
    from draw_floorplan_lines[of env s2 img] h
    show "\<exists>ns. normalize env (vertices s2) = Inr ns
              \<and> im_lines img =
                    map (\<lambda>e. \<lparr>stroke_points = map (\<lambda>i. to_canvas 2000 ns ! i) e,
                              stroke_fill = ''black'', stroke_width = 5\<rparr>)
                        (filter (\<lambda>e. 1 < length e) (entities s2))"
      by blast
  qed
  from a b show ?thesis by (rule conjI)
qed

text \<open>The theorem at the slice without vertices; and the rectangle's two entities, of
  five points and of one point, give one line of five points.\<close>

theorem blank_canvas_and_short_entities_witness:
  "mkdir_parents [''out''] (fsys (world_of (dir_fs []))) = Inr (dir_fs [[''out'']])
   \<and> trimesh_load demo_env (dir_fs [[''out'']]) [''dust.ply''] = Inr dust_mesh
   \<and> mesh_bounds dust_mesh = Some ((0, 0, 0), (1, 1, 1))
   \<and> mesh_section dust_mesh (0, 0, snd (snd (0, 0, 0)) + 1 / 10) (0, 0, 1)
       = Inr (Some \<lparr>to_planar = Inr no_vertices\<rparr>)
   \<and> export_svg no_vertices ([''out''] @ [''floorplan.svg'']) (dir_fs [[''out'']])
       = Inr \<lparr>entries = [([''out''], Dir 0), ([''out'', ''floorplan.svg''], File 0 (Text ''<svg/>''))], clock = 0\<rparr>
   \<and> pil_import demo_env = None
   \<and> vertices no_vertices = []
   \<and> fst (fp_generate_floorplan_from_mesh demo_env [''dust.ply''] [''out''] (world_of (dir_fs []))) = Inr True
   \<and> fst (ns_generate_floorplan_from_mesh demo_env [''dust.ply''] [''out''] (world_of (dir_fs []))) = Inr True
   \<and> lookup (fsys (snd (fp_generate_floorplan_from_mesh demo_env [''dust.ply''] [''out''] (world_of (dir_fs [])))))
        [''out'', ''floorplan.png'']
       = Some (File 0 (Picture \<lparr>im_mode = ''RGB'', im_size = (2000, 2000),
                                 im_color = ''white'', im_lines = []\<rparr>))
   \<and> entities rectangle = [[0, 1, 2, 3, 0], [2]]
   \<and> map (\<lambda>s. length (stroke_points s))
        (im_lines (projr (draw_floorplan demo_env rectangle))) = [5]"
proof -
  have h1: "mkdir_parents [''out''] (fsys (world_of (dir_fs []))) = Inr (dir_fs [[''out'']])"
    by (simp add: run_defs)
  have h2: "trimesh_load demo_env (dir_fs [[''out'']]) [''dust.ply''] = Inr dust_mesh"
    by (simp add: demo_env_def)
  have h3: "mesh_bounds dust_mesh = Some ((0, 0, 0), (1, 1, 1))"
    by (simp add: dust_mesh_def)
  have h4: "mesh_section dust_mesh (0, 0, snd (snd (0, 0, 0)) + 1 / 10) (0, 0, 1)
              = Inr (Some \<lparr>to_planar = Inr no_vertices\<rparr>)"
    by (simp add: dust_mesh_def)
  have h5: "to_planar \<lparr>to_planar = Inr no_vertices\<rparr> = Inr no_vertices" by simp
  have h6: "export_svg no_vertices ([''out''] @ [''floorplan.svg'']) (dir_fs [[''out'']])
       = Inr \<lparr>entries = [([''out''], Dir 0), ([''out'', ''floorplan.svg''], File 0 (Text ''<svg/>''))], clock = 0\<rparr>"
    by (simp add: run_defs)
  have h7: "pil_import demo_env = None" by (simp add: demo_env_def)
  from blank_canvas_and_short_entities[OF h1 h2 h3 h4 h5 h6 h7] h1 h2 h3 h4 h6 h7
  show ?thesis by (simp add: run_defs)
qed

section \<open>Creating the output directory\<close>

text \<open>
  C10.  In \<^verbatim>\<open>floorplan_pipeline.py\<close>, \<^verbatim>\<open>train_and_export_floorplan\<close> makes the output
  directory first: when the data directory or the COLMAP path is missing (and is not
  itself made as a parent of the output directory), the function returns \<^verbatim>\<open>False\<close>
  and leaves the file system with the output directory in it, which is a different file
  system when that directory did not exist.  In both scripts
  \<^verbatim>\<open>generate_floorplan_from_mesh\<close> makes its directory outside the \<^verbatim>\<open>try\<close>: an
  exception of \<^verbatim>\<open>mkdir\<close> leaves the function, with nothing else done; and when
  \<^verbatim>\<open>mkdir\<close> succeeds the directory is there at the end, whatever the body did.
\<close>

theorem output_directory_made_first:
  "(\<forall>fs1. mkdir_parents output_dir (fsys w) = Inr fs1 \<and>
          (\<not> path_exists (fsys w) data_dir \<and> \<not> prefix data_dir output_dir
           \<or> \<not> path_exists (fsys w) colmap_sparse_path \<and> \<not> prefix colmap_sparse_path output_dir) \<longrightarrow>
        fst (fp_train_and_export_floorplan env data_dir colmap_sparse_path output_dir n w) = Inr False
      \<and> fsys (snd (fp_train_and_export_floorplan env data_dir colmap_sparse_path output_dir n w)) = fs1
      \<and> is_dir fs1 output_dir
      \<and> (\<not> path_exists (fsys w) output_dir \<longrightarrow> fs1 \<noteq> fsys w))
   \<and> (\<forall>gen\<in>{fp_generate_floorplan_from_mesh, ns_generate_floorplan_from_mesh}.
        (\<forall>e. mkdir_parents output_dir (fsys w) = Inl e \<longrightarrow>
             gen env mesh_path output_dir w = (Inl e, w))
      \<and> (\<forall>fs1. mkdir_parents output_dir (fsys w) = Inr fs1 \<longrightarrow>
             is_dir (fsys (snd (gen env mesh_path output_dir w))) output_dir))"
    (is "?pipeline \<and> (\<forall>gen\<in>_. ?outside gen)")
proof -
  have a: ?pipeline
  proof (intro allI impI, elim conjE)
    fix fs1
    assume mk: "mkdir_parents output_dir (fsys w) = Inr fs1"
      and m: "\<not> path_exists (fsys w) data_dir \<and> \<not> prefix data_dir output_dir
           \<or> \<not> path_exists (fsys w) colmap_sparse_path \<and> \<not> prefix colmap_sparse_path output_dir"
    from m missing_after_mkdir[OF mk]
    have "\<not> path_exists fs1 data_dir \<or> \<not> path_exists fs1 colmap_sparse_path" by blast
    from fp_train_missing[OF mk this]
    show "fst (fp_train_and_export_floorplan env data_dir colmap_sparse_path output_dir n w) = Inr False
      \<and> fsys (snd (fp_train_and_export_floorplan env data_dir colmap_sparse_path output_dir n w)) = fs1
      \<and> is_dir fs1 output_dir
      \<and> (\<not> path_exists (fsys w) output_dir \<longrightarrow> fs1 \<noteq> fsys w)"
      using mkdir_parents_effect[OF mk] mkdir_parents_changes[OF mk] by simp
  qed
  have fp: "?outside fp_generate_floorplan_from_mesh"
    using fp_generate_keeps_dir by (auto simp: fp_generate_floorplan_from_mesh_def)
  have "fsys (snd (ns_generate_floorplan_from_mesh env mesh_path output_dir w))
      = fsys (snd (fp_generate_floorplan_from_mesh env mesh_path output_dir w))"
    using generate_equiv[of w w env mesh_path output_dir] by (simp add: observable_def)
  then have ns: "?outside ns_generate_floorplan_from_mesh"
    using fp_generate_keeps_dir by (auto simp: ns_generate_floorplan_from_mesh_def)
  have "\<forall>gen\<in>{fp_generate_floorplan_from_mesh, ns_generate_floorplan_from_mesh}. ?outside gen"
  proof (rule ballI)
    fix gen
    assume g: "gen \<in> {fp_generate_floorplan_from_mesh, ns_generate_floorplan_from_mesh}"
    show "?outside gen"
    proof (cases "gen = fp_generate_floorplan_from_mesh")
      case True
      show ?thesis unfolding True by (rule fp)
    next
      case False
      then have eq: "gen = ns_generate_floorplan_from_mesh" using g by simp
      show ?thesis unfolding eq by (rule ns)
    qed
  qed
  with a show ?thesis by (rule conjI)
qed

text \<open>The theorem on an empty file system, where the data directory is missing and the
  output directory gets made; and where \<^verbatim>\<open>out\<close> is a regular file, so that
  \<^verbatim>\<open>mkdir\<close> raises.\<close>

theorem output_directory_made_first_witness:
  "mkdir_parents [''output'', ''room_1''] (fsys (world_of (dir_fs [])))
     = Inr (dir_fs [[''output''], [''output'', ''room_1'']])
   \<and> \<not> path_exists (fsys (world_of (dir_fs []))) [''data'', ''room_1'']
   \<and> \<not> prefix [''data'', ''room_1''] [''output'', ''room_1'']
   \<and> \<not> path_exists (fsys (world_of (dir_fs []))) [''output'', ''room_1'']
   \<and> fp_train_and_export_floorplan demo_env [''data'', ''room_1'']
        [''data'', ''room_1'', ''colmap'', ''sparse'', ''0''] [''output'', ''room_1''] 10000
        (world_of (dir_fs []))
      = (Inr False,
         \<lparr>fsys = dir_fs [[''output''], [''output'', ''room_1'']], calls = [],
          out = [cross_mark @ '' Data directory not found: data/room_1''], tracebacks = []\<rparr>)
   \<and> is_dir (dir_fs [[''output''], [''output'', ''room_1'']]) [''output'', ''room_1'']
   \<and> dir_fs [[''output''], [''output'', ''room_1'']] \<noteq> fsys (world_of (dir_fs []))
   \<and> mkdir_parents [''out''] \<lparr>entries = [([''out''], File 0 (Bytes ''x''))], clock = 0\<rparr>
      = Inl (Exn ''FileExistsError'' ''out'')
   \<and> fp_generate_floorplan_from_mesh demo_env [''room.ply''] [''out'']
        (world_of \<lparr>entries = [([''out''], File 0 (Bytes ''x''))], clock = 0\<rparr>)
      = (Inl (Exn ''FileExistsError'' ''out''),
         world_of \<lparr>entries = [([''out''], File 0 (Bytes ''x''))], clock = 0\<rparr>)
   \<and> ns_generate_floorplan_from_mesh demo_env [''room.ply''] [''out'']
        (world_of \<lparr>entries = [([''out''], File 0 (Bytes ''x''))], clock = 0\<rparr>)
      = (Inl (Exn ''FileExistsError'' ''out''),
         world_of \<lparr>entries = [([''out''], File 0 (Bytes ''x''))], clock = 0\<rparr>)
   \<and> is_dir (fsys (snd (ns_generate_floorplan_from_mesh demo_env [''room.ply''] [''out'']
                          (world_of (dir_fs []))))) [''out'']"
proof -
  have h1: "mkdir_parents [''output'', ''room_1''] (fsys (world_of (dir_fs [])))
     = Inr (dir_fs [[''output''], [''output'', ''room_1'']])"
    by (simp add: run_defs)
  have h2: "\<not> path_exists (fsys (world_of (dir_fs []))) [''data'', ''room_1'']
            \<and> \<not> prefix [''data'', ''room_1''] [''output'', ''room_1'']"
    by (simp add: run_defs)
  have h3: "mkdir_parents [''out''] (fsys (world_of \<lparr>entries = [([''out''], File 0 (Bytes ''x''))], clock = 0\<rparr>))
      = Inl (Exn ''FileExistsError'' ''out'')"
    by (simp add: run_defs)
  have h4: "mkdir_parents [''out''] (fsys (world_of (dir_fs []))) = Inr (dir_fs [[''out'']])"
    by (simp add: run_defs)
  from output_directory_made_first[of "[''output'', ''room_1'']" "world_of (dir_fs [])"
         "[''data'', ''room_1'']" "[''data'', ''room_1'', ''colmap'', ''sparse'', ''0'']"
         demo_env 10000 "[''room.ply'']"]
       output_directory_made_first[of "[''out'']"
         "world_of \<lparr>entries = [([''out''], File 0 (Bytes ''x''))], clock = 0\<rparr>"
         "[''data'']" "[''data'']" demo_env 10000 "[''room.ply'']"]
       output_directory_made_first[of "[''out'']" "world_of (dir_fs [])"
         "[''data'']" "[''data'']" demo_env 10000 "[''room.ply'']"]
       h1 h2 h3 h4
  show ?thesis
    by (simp add: run_defs pipeline_defs)
qed

section \<open>Missing inputs\<close>




section \<open>The two scripts compared\<close>

text \<open>
  C9, as the code has it.  The two \<^verbatim>\<open>generate_floorplan_from_mesh\<close> functions agree
  on every input in what they return or raise, in the file system they leave (so in the
  SVG and the PNG), in the library calls they make and in the tracebacks; only the printed
  text differs.  The two \<^verbatim>\<open>train_and_export_floorplan\<close> functions agree in the same
  way whenever the data directory and the COLMAP path exist once the output directory is
  made.
\<close>

theorem scripts_agree_up_to_printing:
  "observable (fp_generate_floorplan_from_mesh env mesh_path floorplan_dir w)
     = observable (ns_generate_floorplan_from_mesh env mesh_path floorplan_dir w)
   \<and> ((\<forall>fs1. mkdir_parents output_dir (fsys w) = Inr fs1 \<longrightarrow>
             path_exists fs1 data_dir \<and> path_exists fs1 colmap_sparse_path) \<longrightarrow>
        observable (fp_train_and_export_floorplan env data_dir colmap_sparse_path output_dir n w)
          = observable (ns_train_and_export_floorplan env data_dir colmap_sparse_path output_dir n w))"
proof (intro conjI impI)
  show "observable (fp_generate_floorplan_from_mesh env mesh_path floorplan_dir w)
     = observable (ns_generate_floorplan_from_mesh env mesh_path floorplan_dir w)"
    by (rule generate_equiv) simp_all
next
  assume "\<forall>fs1. mkdir_parents output_dir (fsys w) = Inr fs1 \<longrightarrow>
             path_exists fs1 data_dir \<and> path_exists fs1 colmap_sparse_path"
  then show "observable (fp_train_and_export_floorplan env data_dir colmap_sparse_path output_dir n w)
          = observable (ns_train_and_export_floorplan env data_dir colmap_sparse_path output_dir n w)"
    by (rule train_equiv)
qed

text \<open>The theorem on a full run: both inputs exist, the trainer and the exporter
  succeed, and both scripts end with the same files, among them the SVG and the PNG of the
  room's outline.\<close>

theorem scripts_agree_up_to_printing_witness:
  "mkdir_parents [''output'', ''room_1''] (fsys (world_of data_fs))
     = Inr (data_fs\<lparr>entries := entries data_fs @ [([''output''], Dir 0), ([''output'', ''room_1''], Dir 0)]\<rparr>)
   \<and> path_exists (data_fs\<lparr>entries := entries data_fs @ [([''output''], Dir 0), ([''output'', ''room_1''], Dir 0)]\<rparr>)
        [''data'', ''room_1'']
   \<and> path_exists (data_fs\<lparr>entries := entries data_fs @ [([''output''], Dir 0), ([''output'', ''room_1''], Dir 0)]\<rparr>)
        [''data'', ''room_1'', ''colmap'', ''sparse'', ''0'']
   \<and> observable (ns_train_and_export_floorplan stub_env [''data'', ''room_1'']
        [''data'', ''room_1'', ''colmap'', ''sparse'', ''0''] [''output'', ''room_1''] 10000 (world_of data_fs))
      = observable (fp_train_and_export_floorplan stub_env [''data'', ''room_1'']
        [''data'', ''room_1'', ''colmap'', ''sparse'', ''0''] [''output'', ''room_1''] 10000 (world_of data_fs))
   \<and> observable (fp_train_and_export_floorplan stub_env [''data'', ''room_1'']
        [''data'', ''room_1'', ''colmap'', ''sparse'', ''0''] [''output'', ''room_1''] 10000 (world_of data_fs))
      = (Inr True,
         \<lparr>entries = entries data_fs @
            [([''output''], Dir 0), ([''output'', ''room_1''], Dir 0),
             ([''output'', ''room_1'', ''config.yml''], File 0 (Text ''config'')),
             ([''output'', ''room_1'', ''exports''], Dir 0),
             ([''output'', ''room_1'', ''exports'', ''mesh''], Dir 0),
             ([''output'', ''room_1'', ''exports'', ''mesh'', ''mesh.ply''], File 0 (Bytes ''ply'')),
             ([''output'', ''room_1'', ''floorplan''], Dir 0),
             ([''output'', ''room_1'', ''floorplan'', ''floorplan.svg''], File 0 (Text ''<svg/>'')),
             ([''output'', ''room_1'', ''floorplan'', ''floorplan.png''],
              File 0 (Picture
               \<lparr>im_mode = ''RGB'', im_size = (2000, 2000), im_color = ''white'',
                im_lines = [\<lparr>stroke_points = [(50, 50), (1950, 50), (1950, 1950), (50, 1950), (50, 50)],
                             stroke_fill = ''black'', stroke_width = 5\<rparr>]\<rparr>))],
          clock = 0\<rparr>,
         [Subprocess [''ns-train'', ''nerfacto'', ''--output-dir'', ''output/room_1'',
                      ''--max-num-iterations'', ''10000'', ''colmap'',
                      ''--data'', ''data/room_1'', ''--colmap-path'', ''colmap/sparse/0''],
          Subprocess [''ns-export'', ''poisson'', ''--load-config'', ''output/room_1/config.yml'',
                      ''--output-dir'', ''output/room_1/exports/mesh'',
                      ''--num-points'', ''1000000'', ''--remove-outliers'', ''True''],
          MeshLoad [''output'', ''room_1'', ''exports'', ''mesh'', ''mesh.ply''],
          MeshSection (0, 0, 1 / 10) (0, 0, 1), ToPlanar,
          SvgExport [''output'', ''room_1'', ''floorplan'', ''floorplan.svg''],
          PngSave [''output'', ''room_1'', ''floorplan'', ''floorplan.png'']],
         [])
   \<and> observable (ns_generate_floorplan_from_mesh demo_env [''room.ply''] [''out''] (world_of (dir_fs [])))
      = observable (fp_generate_floorplan_from_mesh demo_env [''room.ply''] [''out''] (world_of (dir_fs [])))"
proof -
  have h1: "mkdir_parents [''output'', ''room_1''] (fsys (world_of data_fs))
     = Inr (data_fs\<lparr>entries := entries data_fs @ [([''output''], Dir 0), ([''output'', ''room_1''], Dir 0)]\<rparr>)"
    by (simp add: run_defs data_fs_def)
  have h2: "path_exists (data_fs\<lparr>entries := entries data_fs @ [([''output''], Dir 0), ([''output'', ''room_1''], Dir 0)]\<rparr>)
        [''data'', ''room_1'']
      \<and> path_exists (data_fs\<lparr>entries := entries data_fs @ [([''output''], Dir 0), ([''output'', ''room_1''], Dir 0)]\<rparr>)
        [''data'', ''room_1'', ''colmap'', ''sparse'', ''0'']"
    by (simp add: run_defs data_fs_def)
  have h3: "\<forall>fs1. mkdir_parents [''output'', ''room_1''] (fsys (world_of data_fs)) = Inr fs1 \<longrightarrow>
             path_exists fs1 [''data'', ''room_1'']
           \<and> path_exists fs1 [''data'', ''room_1'', ''colmap'', ''sparse'', ''0'']"
    using h2 by (simp add: h1)
  have run: "observable (fp_train_and_export_floorplan stub_env [''data'', ''room_1'']
        [''data'', ''room_1'', ''colmap'', ''sparse'', ''0''] [''output'', ''room_1''] 10000 (world_of data_fs))
      = (Inr True,
         \<lparr>entries = entries data_fs @
            [([''output''], Dir 0), ([''output'', ''room_1''], Dir 0),
             ([''output'', ''room_1'', ''config.yml''], File 0 (Text ''config'')),
             ([''output'', ''room_1'', ''exports''], Dir 0),
             ([''output'', ''room_1'', ''exports'', ''mesh''], Dir 0),
             ([''output'', ''room_1'', ''exports'', ''mesh'', ''mesh.ply''], File 0 (Bytes ''ply'')),
             ([''output'', ''room_1'', ''floorplan''], Dir 0),
             ([''output'', ''room_1'', ''floorplan'', ''floorplan.svg''], File 0 (Text ''<svg/>'')),
             ([''output'', ''room_1'', ''floorplan'', ''floorplan.png''],
              File 0 (Picture
               \<lparr>im_mode = ''RGB'', im_size = (2000, 2000), im_color = ''white'',
                im_lines = [\<lparr>stroke_points = [(50, 50), (1950, 50), (1950, 1950), (50, 1950), (50, 50)],
                             stroke_fill = ''black'', stroke_width = 5\<rparr>]\<rparr>))],
          clock = 0\<rparr>,
         [Subprocess [''ns-train'', ''nerfacto'', ''--output-dir'', ''output/room_1'',
                      ''--max-num-iterations'', ''10000'', ''colmap'',
                      ''--data'', ''data/room_1'', ''--colmap-path'', ''colmap/sparse/0''],
          Subprocess [''ns-export'', ''poisson'', ''--load-config'', ''output/room_1/config.yml'',
                      ''--output-dir'', ''output/room_1/exports/mesh'',
                      ''--num-points'', ''1000000'', ''--remove-outliers'', ''True''],
          MeshLoad [''output'', ''room_1'', ''exports'', ''mesh'', ''mesh.ply''],
          MeshSection (0, 0, 1 / 10) (0, 0, 1), ToPlanar,
          SvgExport [''output'', ''room_1'', ''floorplan'', ''floorplan.svg''],
          PngSave [''output'', ''room_1'', ''floorplan'', ''floorplan.png'']],
         [])"
    by (simp add: run_defs pipeline_defs data_fs_def stub_env_def observable_def
          glob_rec_def glob_suffix_def is_below_def suffix_to_prefix
          newest_def sorted_by_mtime_def st_mtime_def)
  note agree = scripts_agree_up_to_printing[of stub_env "[''room.ply'']" "[''out'']" "world_of data_fs"
         "[''output'', ''room_1'']" "[''data'', ''room_1'']"
         "[''data'', ''room_1'', ''colmap'', ''sparse'', ''0'']" 10000]
  from agree h3 have pipelines:
    "observable (ns_train_and_export_floorplan stub_env [''data'', ''room_1'']
        [''data'', ''room_1'', ''colmap'', ''sparse'', ''0''] [''output'', ''room_1''] 10000 (world_of data_fs))
      = observable (fp_train_and_export_floorplan stub_env [''data'', ''room_1'']
        [''data'', ''room_1'', ''colmap'', ''sparse'', ''0''] [''output'', ''room_1''] 10000 (world_of data_fs))"
    by simp
  from scripts_agree_up_to_printing[of demo_env "[''room.ply'']" "[''out'']" "world_of (dir_fs [])"]
  have rasterizers:
    "observable (ns_generate_floorplan_from_mesh demo_env [''room.ply''] [''out''] (world_of (dir_fs [])))
      = observable (fp_generate_floorplan_from_mesh demo_env [''room.ply''] [''out''] (world_of (dir_fs [])))"
    by simp
  from h1 h2 pipelines run rasterizers show ?thesis by (intro conjI) simp_all
qed

text \<open>
  C9 as stated fails in its last part: the scripts differ in more than defaults.  On an
  empty file system and with the arguments that \<^verbatim>\<open>nerfstudio_automate.py\<close> has built
  in, the two \<^verbatim>\<open>train_and_export_floorplan\<close> functions leave different observable
  results; \<^verbatim>\<open>floorplan_pipeline.py\<close> exits with code 1 having run only
  \<^verbatim>\<open>nvidia-smi\<close>, \<^verbatim>\<open>nerfstudio_automate.py\<close> ends with code 0 having run the trainer.
\<close>

theorem scripts_differ_counterexample:
  "observable (fp_train_and_export_floorplan demo_env [''data'', ''room_1'']
        [''data'', ''room_1'', ''colmap'', ''sparse'', ''0''] [''output'', ''room_1''] 10000
        (world_of (dir_fs [])))
   \<noteq> observable (ns_train_and_export_floorplan demo_env [''data'', ''room_1'']
        [''data'', ''room_1'', ''colmap'', ''sparse'', ''0''] [''output'', ''room_1''] 10000
        (world_of (dir_fs [])))
   \<and> observable (fp_main demo_env [''data'', ''room_1''] [''output'', ''room_1''] 10000 (world_of (dir_fs [])))
      = (Inr 1, dir_fs [[''output''], [''output'', ''room_1'']], [Subprocess [''nvidia-smi'']], [])
   \<and> observable (ns_main demo_env (world_of (dir_fs [])))
      = (Inr 0, dir_fs [[''output''], [''output'', ''room_1'']],
         [Subprocess [''ns-train'', ''nerfacto'', ''--output-dir'', ''output/room_1'',
                      ''--max-num-iterations'', ''10000'', ''colmap'',
                      ''--data'', ''data/room_1'', ''--colmap-path'', ''colmap/sparse/0'']], [])"
  by (simp add: run_defs pipeline_defs)

end
